theory Spec2Isabelle
  imports Complex_Main
begin

section \<open>The ReID trainer of \<^verbatim>\<open>lib/tracking/deepsort/trainer.py\<close>\<close>

text \<open>
  The class \<^verbatim>\<open>Trainer\<close> drives a deep-learning framework: it builds a model, an optimizer
  and two data loaders, then runs a sweep of training runs. The embedding keeps the control
  flow of the source statement by statement. The tensor computations of the framework and
  the helper modules that the file imports (\<^verbatim>\<open>runner\<close>, \<^verbatim>\<open>datasets\<close>,
  \<^verbatim>\<open>models.get_extractor\<close>) are parameters, collected in a record; every call of the
  source that acts on the outside world is written to a log. Accuracies and learning rates
  are Python floats; only their order is used, and they are modelled as reals (no NaN).
\<close>

subsection \<open>Exceptions\<close>

datatype error =
    NameError string
  | UnboundLocalError string
  | StopIteration
  | KeyError string
  | FileNotFoundError
  | ZeroDivisionError
  | ValueError string
  | TypeError string
  | DeviceStringError
  | UnpicklingError
  | StateDictError

subsection \<open>Configuration\<close>

record dataset_cfg =
  ds_name :: string
  ds_root :: string
  ds_size :: "nat \<times> nat"
  ds_mean :: "real list"
  ds_std :: "real list"
  ds_batch_size :: nat
  ds_workers :: nat

record train_cfg =
  tr_epoch :: int
  tr_save_interval :: int
  tr_pretrained :: string

text \<open>One entry of the sweep, a named tuple built by \<^verbatim>\<open>RunBuilder.get_runs\<close>. The two flags
  are read with \<^verbatim>\<open>getattr(run, name, False)\<close>, so they may be absent.\<close>

record run =
  run_lr :: real
  run_optim :: string
  run_reduce_lr :: "bool option"
  run_gaussian_mask :: "bool option"

record config =
  cfg_GPU :: int
  cfg_reid_net :: string
  cfg_weight_root :: string
  cfg_dataset :: dataset_cfg
  cfg_train :: train_cfg
  cfg_params :: "run list"

definition getattr_flag :: "bool option \<Rightarrow> bool" where
  "getattr_flag v = (case v of None \<Rightarrow> False | Some b \<Rightarrow> b)"

subsection \<open>Devices, datasets and loaders\<close>

datatype device = Cuda int | Cpu

datatype tfms = Tfms nat nat

text \<open>What \<^verbatim>\<open>get_dataset\<close> returns: the samples in their stored order and the attribute
  \<^verbatim>\<open>num_classes\<close>.\<close>

record 'x dataset =
  dset_samples :: "'x list"
  dset_num_classes :: nat

text \<open>A \<^verbatim>\<open>DataLoader\<close> object: the dataset and the keyword arguments it was built with.\<close>

record 'x loader =
  ld_dataset :: "'x dataset"
  ld_shuffle :: bool
  ld_batch_size :: nat
  ld_num_workers :: nat

subsection \<open>Checkpoint files\<close>

text \<open>
  The value stored under the key \<^verbatim>\<open>net_dict\<close> is a Python object: either a mapping of
  parameters (what \<^verbatim>\<open>net.state_dict()\<close> returns) or the bound method
  \<^verbatim>\<open>net.state_dict\<close> itself, which pickles together with the module it belongs to.
\<close>

datatype ('net, 'sd) pyobj = StateDict 'sd | BoundMethod 'net string

text \<open>A checkpoint is a dictionary; a key that is absent is \<open>None\<close>.\<close>

record ('net, 'sd) checkpoint =
  ck_net_dict :: "('net, 'sd) pyobj option"
  ck_acc :: "real option"
  ck_epoch :: "int option"
  ck_lr :: "real option"

datatype ('net, 'sd) disk_file = Garbage | Pickled "('net, 'sd) checkpoint"

subsection \<open>The log\<close>

datatype site = IntervalPolicy | Improvement

datatype status = TrainStatus | ValStatus

datatype 'x event =
    PrintRun run
  | BeginRun run
  | BeginEpoch
  | NextTrainBatch "'x list"
  | NextValBatch "'x list"
  | ToDevice
  | MaskMul
  | Normalize
  | Forward "'x list" bool
  | CrossEntropy
  | ZeroGrad
  | Backward
  | OptimizerStep
  | TrackLoss
  | TrackNumCorrect
  | AddTbData status
  | SaveCheckpoint site string int
  | EmptyCache
  | NetEval
  | NoGradEnter
  | NoGradExit
  | SchedulerStep
  | EndEpoch
  | EndRun
  | RunnerSave string

subsection \<open>The optimizer\<close>

datatype optim_kind = SGD | Adam

text \<open>An optimizer holds the parameters of the network it was built for; \<open>opt_owner\<close> is
  the position in the sweep of the run that built it.\<close>

record optimizer =
  opt_kind :: optim_kind
  opt_lr :: real
  opt_owner :: nat

subsection \<open>The collaborators\<close>

text \<open>
  What the source calls and does not define:
  \<^item> \<open>get_model\<close>: \<^verbatim>\<open>get_model(reid_net, reid=False, num_classes=n)\<close>;
  \<^item> \<open>module_to\<close>: \<^verbatim>\<open>net.to(device)\<close>;
  \<^item> \<open>nn_load_state_dict\<close>: \<^verbatim>\<open>net.load_state_dict\<close> applied to a mapping of parameters,
    which raises when the mapping does not fit the network;
  \<^item> \<open>get_dataset\<close>: \<^verbatim>\<open>get_dataset(reid_net, name, root=, mode=, tfms=)\<close>;
  \<^item> \<open>sampler_order\<close>: the order in which a shuffling loader visits the samples;
  \<^item> \<open>optim_update\<close>: the network after \<^verbatim>\<open>loss.backward()\<close> and \<^verbatim>\<open>optimizer.step()\<close>
    on one batch, with the mask flag; the first argument tells whether the optimizer holds
    the parameters of this very network;
  \<^item> \<open>runner_val_accuracy\<close>: the attribute \<^verbatim>\<open>runner.val_accuracy\<close> after a validation pass
    of the network over the given batches;
  \<^item> \<open>plateau_step\<close>: what \<^verbatim>\<open>scheduler.step()\<close> without a metric does to a
    \<^verbatim>\<open>ReduceLROnPlateau\<close> scheduler (\<open>Some e\<close> when it raises);
  \<^item> \<open>checkpoint_basename\<close>: the formatted string \<^verbatim>\<open>f'epoch_{epoch}-{best_acc}.pth'\<close>;
  \<^item> \<open>os_makedirs\<close>: the exception, if any, of \<^verbatim>\<open>os.makedirs(name, exist_ok=True)\<close> for a
    name that is not empty, given the files on disk (it depends on the directories and
    the permissions of the machine, which the state does not hold);
  \<^item> \<open>torch_save_error\<close>: the exception, if any, of opening the file that \<^verbatim>\<open>torch.save\<close>
    writes.
\<close>

record ('net, 'sd, 'x) framework =
  get_model :: "string \<Rightarrow> nat \<Rightarrow> 'net"
  module_to :: "'net \<Rightarrow> device \<Rightarrow> 'net"
  nn_load_state_dict :: "'net \<Rightarrow> 'sd \<Rightarrow> error + 'net"
  get_dataset :: "string \<Rightarrow> string \<Rightarrow> string \<Rightarrow> string \<Rightarrow> tfms \<Rightarrow> 'x dataset"
  sampler_order :: "'x list \<Rightarrow> 'x list"
  optim_update :: "bool \<Rightarrow> optimizer \<Rightarrow> bool \<Rightarrow> 'net \<Rightarrow> 'x list \<Rightarrow> 'net"
  runner_val_accuracy :: "'net \<Rightarrow> bool \<Rightarrow> 'x list list \<Rightarrow> real"
  plateau_step :: "error option"
  checkpoint_basename :: "int \<Rightarrow> real \<Rightarrow> string"
  os_makedirs :: "(string \<rightharpoonup> ('net, 'sd) disk_file) \<Rightarrow> string \<Rightarrow> error option"
  torch_save_error :: "(string \<rightharpoonup> ('net, 'sd) disk_file) \<Rightarrow> string \<Rightarrow> error option"

subsection \<open>The state\<close>

text \<open>
  The fields of \<^verbatim>\<open>self\<close>, the local variables of \<^verbatim>\<open>train\<close> that live across the
  iterations of \<^verbatim>\<open>for\<close> (\<open>net\<close>, \<open>optimizer\<close>, \<open>scheduler\<close>, \<open>images\<close>: a Python local
  keeps its binding from one iteration to the next), the gradient mode, the files on disk
  and the log.
\<close>

record ('net, 'sd, 'x) trainer =
  save_root :: string
  start_epoch :: int
  lr :: real
  best_acc :: real
  train_loader :: "'x loader option"
  val_loader :: "'x loader option"
  num_classes :: nat
  device :: device
  runs :: "run list"
  net :: "'net option"
  optimizer :: "optimizer option"
  scheduler :: "optimizer option"
  images :: "'x list option"
  grad_enabled :: bool
  files :: "string \<rightharpoonup> ('net, 'sd) disk_file"
  log :: "'x event list"

subsection \<open>Statements\<close>

text \<open>A statement maps the state to the new state and the exception it raised, if any.\<close>

type_synonym 's stmt = "'s \<Rightarrow> 's \<times> error option"

definition skip :: "'s stmt" where
  "skip s = (s, None)"

definition seq :: "'s stmt \<Rightarrow> 's stmt \<Rightarrow> 's stmt" where
  "seq p q s = (case p s of (s', None) \<Rightarrow> q s' | (s', Some e) \<Rightarrow> (s', Some e))"

fun block :: "'s stmt list \<Rightarrow> 's stmt" where
  "block [] = skip"
| "block (p # ps) = seq p (block ps)"

definition if_then :: "bool \<Rightarrow> 's stmt \<Rightarrow> 's stmt" where
  "if_then c p = (if c then p else skip)"

fun for_each :: "'a list \<Rightarrow> ('a \<Rightarrow> 's stmt) \<Rightarrow> 's stmt" where
  "for_each [] body s = (s, None)"
| "for_each (x # xs) body s =
     (case body x s of (s', None) \<Rightarrow> for_each xs body s' | (s', Some e) \<Rightarrow> (s', Some e))"

definition emit :: "'x event \<Rightarrow> ('net, 'sd, 'x) trainer stmt" where
  "emit e s = (s\<lparr>log := log s @ [e]\<rparr>, None)"

text \<open>Reading a local variable of \<^verbatim>\<open>train\<close> that has no binding yet raises.\<close>

definition with_optimizer ::
  "(optimizer \<Rightarrow> ('net, 'sd, 'x) trainer stmt) \<Rightarrow> ('net, 'sd, 'x) trainer stmt" where
  "with_optimizer f s =
     (case optimizer s of None \<Rightarrow> (s, Some (UnboundLocalError ''optimizer''))
      | Some opt \<Rightarrow> f opt s)"

definition with_net ::
  "('net \<Rightarrow> ('net, 'sd, 'x) trainer stmt) \<Rightarrow> ('net, 'sd, 'x) trainer stmt" where
  "with_net f s =
     (case net s of None \<Rightarrow> (s, Some (UnboundLocalError ''net'')) | Some n \<Rightarrow> f n s)"

definition with_images ::
  "('x list \<Rightarrow> ('net, 'sd, 'x) trainer stmt) \<Rightarrow> ('net, 'sd, 'x) trainer stmt" where
  "with_images f s =
     (case images s of None \<Rightarrow> (s, Some (UnboundLocalError ''images'')) | Some b \<Rightarrow> f b s)"

definition with_val_loader ::
  "('x loader \<Rightarrow> ('net, 'sd, 'x) trainer stmt) \<Rightarrow> ('net, 'sd, 'x) trainer stmt" where
  "with_val_loader f s =
     (case val_loader s of None \<Rightarrow> (s, Some (TypeError ''val_loader'')) | Some l \<Rightarrow> f l s)"

subsection \<open>Paths and files\<close>

text \<open>\<^verbatim>\<open>os.path.join\<close> of two components on a POSIX system.\<close>

definition path_join :: "string \<Rightarrow> string \<Rightarrow> string" where
  "path_join a b =
     (if b \<noteq> [] \<and> hd b = CHR ''/'' then b
      else if a = [] \<or> last a = CHR ''/'' then a @ b
      else a @ ''/'' @ b)"

text \<open>\<^verbatim>\<open>os.path.dirname\<close> on a POSIX system: the path up to its last slash, without the
  trailing slashes unless it consists of slashes only; empty when the path has no slash.\<close>

definition dirname :: "string \<Rightarrow> string" where
  "dirname p =
     (let head = rev (dropWhile (\<lambda>c. c \<noteq> CHR ''/'') (rev p))
      in if filter (\<lambda>c. c \<noteq> CHR ''/'') head = [] then head
         else rev (dropWhile (\<lambda>c. c = CHR ''/'') (rev head)))"

text \<open>\<^verbatim>\<open>os.makedirs(name, exist_ok=True)\<close>: the empty name is no directory and raises;
  for any other name the outcome is that of the machine.\<close>

definition makedirs ::
  "('net, 'sd, 'x) framework \<Rightarrow> (string \<rightharpoonup> ('net, 'sd) disk_file) \<Rightarrow> string
     \<Rightarrow> error option" where
  "makedirs fw fs d = (if d = [] then Some FileNotFoundError else os_makedirs fw fs d)"

text \<open>A file name under which a checkpoint can be written: it has a directory part, the
  directory can be created and the file can be opened.\<close>

definition writable ::
  "('net, 'sd, 'x) framework \<Rightarrow> (string \<rightharpoonup> ('net, 'sd) disk_file) \<Rightarrow> string \<Rightarrow> bool" where
  "writable fw fs f =
     (dirname f \<noteq> [] \<and> os_makedirs fw fs (dirname f) = None \<and> torch_save_error fw fs f = None)"

definition isfile :: "(string \<rightharpoonup> ('net, 'sd) disk_file) \<Rightarrow> string \<Rightarrow> bool" where
  "isfile fs p = (case fs p of None \<Rightarrow> False | Some f \<Rightarrow> True)"

text \<open>\<^verbatim>\<open>torch.load\<close>: a file that is not a pickled checkpoint fails to deserialize.\<close>

definition torch_load ::
  "(string \<rightharpoonup> ('net, 'sd) disk_file) \<Rightarrow> string \<Rightarrow> error + ('net, 'sd) checkpoint" where
  "torch_load fs p =
     (case fs p of
        None \<Rightarrow> Inl UnpicklingError
      | Some Garbage \<Rightarrow> Inl UnpicklingError
      | Some (Pickled ck) \<Rightarrow> Inr ck)"

text \<open>\<^verbatim>\<open>net.load_state_dict(obj)\<close>: an argument that is not a mapping of parameters is
  rejected with an exception (a method object has neither the keys nor the \<^verbatim>\<open>copy\<close> method
  that the call needs).\<close>

definition load_state_dict ::
  "('net, 'sd, 'x) framework \<Rightarrow> 'net \<Rightarrow> ('net, 'sd) pyobj \<Rightarrow> error + 'net" where
  "load_state_dict fw n obj =
     (case obj of
        StateDict sd \<Rightarrow> nn_load_state_dict fw n sd
      | BoundMethod m f \<Rightarrow> Inl StateDictError)"

subsection \<open>Loaders\<close>

text \<open>The batches of a loader, in the order of iteration; the last batch may be short
  (\<^verbatim>\<open>drop_last\<close> is left at its default).\<close>

function chunks :: "nat \<Rightarrow> 'a list \<Rightarrow> 'a list list" where
  "chunks n xs = (if n = 0 \<or> xs = [] then [] else take n xs # chunks n (drop n xs))"
  by pat_completeness auto
termination
  by (relation "measure (\<lambda>(n, xs). length xs)") auto

declare chunks.simps [simp del]

definition loader_batches :: "('net, 'sd, 'x) framework \<Rightarrow> 'x loader \<Rightarrow> 'x list list" where
  "loader_batches fw l =
     chunks (ld_batch_size l)
       (if ld_shuffle l then sampler_order fw (dset_samples (ld_dataset l))
        else dset_samples (ld_dataset l))"

text \<open>The constructor \<^verbatim>\<open>DataLoader(dataset, shuffle=, batch_size=, num_workers=)\<close>; it
  rejects a batch size that is not positive.\<close>

definition DataLoader :: "'x dataset \<Rightarrow> bool \<Rightarrow> nat \<Rightarrow> nat \<Rightarrow> error + 'x loader" where
  "DataLoader ds sh bs nw =
     (if bs = 0 then Inl (ValueError ''batch_size'')
      else Inr \<lparr>ld_dataset = ds, ld_shuffle = sh, ld_batch_size = bs, ld_num_workers = nw\<rparr>)"

definition get_transforms :: "nat \<times> nat \<Rightarrow> tfms" where
  "get_transforms sz = Tfms (fst sz) (snd sz)"

subsection \<open>\<^verbatim>\<open>Trainer.setup_device\<close> (lines 34 to 44)\<close>

text \<open>
  The body reads the name \<^verbatim>\<open>cfg\<close>, which is neither a parameter nor a local of the static
  method: Python looks it up among the module's globals, given here as a map. The device
  string is only built when the condition holds. \<^verbatim>\<open>torch.device\<close> rejects a negative
  index.
\<close>

definition setup_device :: "(string \<rightharpoonup> config) \<Rightarrow> bool \<Rightarrow> int \<Rightarrow> error + device" where
  "setup_device globs cuda_is_available device_id =
     (if device_id \<ge> 0 \<and> cuda_is_available
      then (case globs ''cfg'' of
              None \<Rightarrow> Inl (NameError ''cfg'')
            | Some c \<Rightarrow> if cfg_GPU c < 0 then Inl DeviceStringError else Inr (Cuda (cfg_GPU c)))
      else Inr Cpu)"

subsection \<open>\<^verbatim>\<open>Trainer.load_model\<close> (lines 46 to 57)\<close>

definition load_model ::
  "('net, 'sd, 'x) framework \<Rightarrow> string \<Rightarrow> string \<Rightarrow> ('net, 'sd, 'x) trainer
     \<Rightarrow> ('net, 'sd, 'x) trainer \<times> (error + 'net)" where
  "load_model fw reid_net pretrained s =
     (let net0 = get_model fw reid_net (num_classes s) in
      if isfile (files s) pretrained then
        (case torch_load (files s) pretrained of
           Inl e \<Rightarrow> (s, Inl e)
         | Inr checkpoint \<Rightarrow>
             (case ck_net_dict checkpoint of
                None \<Rightarrow> (s, Inl (KeyError ''net_dict''))
              | Some obj \<Rightarrow>
                  (case load_state_dict fw net0 obj of
                     Inl e \<Rightarrow> (s, Inl e)
                   | Inr net1 \<Rightarrow>
                       (case ck_epoch checkpoint of
                          None \<Rightarrow> (s, Inl (KeyError ''epoch''))
                        | Some ep \<Rightarrow>
                            (let s1 = s\<lparr>start_epoch := ep\<rparr> in
                             case ck_acc checkpoint of
                               None \<Rightarrow> (s1, Inl (KeyError ''acc''))
                             | Some a \<Rightarrow>
                                 (let s2 = s1\<lparr>best_acc := a\<rparr> in
                                  case ck_lr checkpoint of
                                    None \<Rightarrow> (s2, Inl (KeyError ''lr''))
                                  | Some l \<Rightarrow>
                                      (s2\<lparr>lr := l\<rparr>, Inr (module_to fw net1 (device s)))))))))
      else (s, Inr (module_to fw net0 (device s))))"

subsection \<open>\<^verbatim>\<open>Trainer.load_data\<close> (lines 59 to 87)\<close>

text \<open>The parameter \<^verbatim>\<open>reid_net\<close> is not used by the body, which reads
  \<^verbatim>\<open>self.cfg.reid_net\<close>.\<close>

definition load_data ::
  "('net, 'sd, 'x) framework \<Rightarrow> config \<Rightarrow> string \<Rightarrow> string
     \<Rightarrow> ('net, 'sd, 'x) trainer stmt" where
  "load_data fw cfg root_dir reid_net s =
     (let cfg_loader = cfg_dataset cfg;
          tfms = get_transforms (ds_size cfg_loader);
          train_dataset = get_dataset fw (cfg_reid_net cfg) (ds_name cfg_loader) root_dir ''val'' tfms
      in case DataLoader train_dataset False (ds_batch_size cfg_loader) (ds_workers cfg_loader) of
           Inl e \<Rightarrow> (s, Some e)
         | Inr trl \<Rightarrow>
             (let s1 = s\<lparr>train_loader := Some trl\<rparr>;
                  val_dataset =
                    get_dataset fw (cfg_reid_net cfg) (ds_name cfg_loader) root_dir ''val'' tfms
              in case DataLoader val_dataset False (ds_batch_size cfg_loader)
                        (ds_workers cfg_loader) of
                   Inl e \<Rightarrow> (s1, Some e)
                 | Inr vl \<Rightarrow>
                     (s1\<lparr>val_loader := Some vl,
                         num_classes := dset_num_classes train_dataset\<rparr>, None)))"

subsection \<open>\<^verbatim>\<open>Trainer.save_checkpoint\<close> (lines 89 to 98)\<close>

text \<open>
  Line 90 creates the directory of the file first, and raises when the file name has no
  directory part. Line 93 stores \<^verbatim>\<open>net.state_dict\<close>, the method, and does not call it.
  Line 98 writes the file. The argument \<open>st\<close> names the call site and only goes to the
  log.
\<close>

definition save_checkpoint ::
  "('net, 'sd, 'x) framework \<Rightarrow> site \<Rightarrow> string \<Rightarrow> 'net \<Rightarrow> int \<Rightarrow> real
     \<Rightarrow> ('net, 'sd, 'x) trainer stmt" where
  "save_checkpoint fw st filename n ep l s =
     (case makedirs fw (files s) (dirname filename) of
        Some e \<Rightarrow> (s, Some e)
      | None \<Rightarrow>
          (let checkpoint =
                 \<lparr>ck_net_dict = Some (BoundMethod n ''state_dict''),
                  ck_acc = Some (best_acc s),
                  ck_epoch = Some ep,
                  ck_lr = Some l\<rparr>
           in case torch_save_error fw (files s) filename of
                Some e \<Rightarrow> (s, Some e)
              | None \<Rightarrow>
                  (s\<lparr>files := (files s)(filename \<mapsto> Pickled checkpoint),
                     log := log s @ [SaveCheckpoint st filename ep]\<rparr>, None)))"

subsection \<open>\<^verbatim>\<open>Trainer.__init__\<close> (lines 16 to 32)\<close>

text \<open>The sweep \<^verbatim>\<open>RunBuilder.get_runs(cfg.params)\<close> is taken as the list of its runs. The
  constructor starts from the files already on disk; line 19 creates the directory
  \<^verbatim>\<open>save_root\<close>.\<close>

definition make_save_root :: "config \<Rightarrow> string" where
  "make_save_root cfg =
     path_join (cfg_weight_root cfg) (cfg_reid_net cfg @ ''_'' @ ds_name (cfg_dataset cfg))"

definition init_trainer ::
  "('net, 'sd, 'x) framework \<Rightarrow> (string \<rightharpoonup> config) \<Rightarrow> bool \<Rightarrow> config
     \<Rightarrow> (string \<rightharpoonup> ('net, 'sd) disk_file) \<Rightarrow> error + ('net, 'sd, 'x) trainer" where
  "init_trainer fw globs cuda_is_available cfg fs =
     (case makedirs fw fs (make_save_root cfg) of
        Some e \<Rightarrow> Inl e
      | None \<Rightarrow>
          (case setup_device globs cuda_is_available (cfg_GPU cfg) of
             Inl e \<Rightarrow> Inl e
           | Inr dev \<Rightarrow>
               (case load_data fw cfg (ds_root (cfg_dataset cfg)) (cfg_reid_net cfg)
                       \<lparr>save_root = make_save_root cfg,
                        start_epoch = 0, lr = 0, best_acc = 0,
                        train_loader = None, val_loader = None, num_classes = 0,
                        device = dev, runs = cfg_params cfg,
                        net = None, optimizer = None, scheduler = None, images = None,
                        grad_enabled = True, files = fs, log = []\<rparr> of
                  (s, Some e) \<Rightarrow> Inl e
                | (s, None) \<Rightarrow> Inr s)))"

subsection \<open>\<^verbatim>\<open>Trainer.train\<close> (lines 100 to 214)\<close>

text \<open>Lines 117 to 123: neither branch is taken for any other name, and the local
  \<^verbatim>\<open>optimizer\<close> then keeps whatever binding it had.\<close>

definition make_optimizer :: "nat \<Rightarrow> run \<Rightarrow> ('net, 'sd, 'x) trainer stmt" where
  "make_optimizer idx r s =
     (if run_optim r = ''SGD''
      then (s\<lparr>optimizer := Some \<lparr>opt_kind = SGD, opt_lr = lr s, opt_owner = idx\<rparr>\<rparr>, None)
      else if run_optim r = ''Adam''
      then (s\<lparr>optimizer := Some \<lparr>opt_kind = Adam, opt_lr = lr s, opt_owner = idx\<rparr>\<rparr>, None)
      else (s, None))"

text \<open>Lines 126 to 129: the scheduler constructor reads \<^verbatim>\<open>optimizer\<close>.\<close>

definition make_scheduler :: "run \<Rightarrow> ('net, 'sd, 'x) trainer stmt" where
  "make_scheduler r =
     if_then (getattr_flag (run_reduce_lr r))
       (with_optimizer (\<lambda>opt s. (s\<lparr>scheduler := Some opt\<rparr>, None)))"

text \<open>Line 144: \<^verbatim>\<open>next(iter(self.train_loader))\<close> takes the first batch of a fresh
  iteration and raises when there is none.\<close>

definition next_train_batch :: "('net, 'sd, 'x) framework \<Rightarrow> ('net, 'sd, 'x) trainer stmt" where
  "next_train_batch fw s =
     (case train_loader s of
        None \<Rightarrow> (s, Some (TypeError ''train_loader''))
      | Some l \<Rightarrow>
          (case loader_batches fw l of
             [] \<Rightarrow> (s, Some StopIteration)
           | b # bs \<Rightarrow> (s\<lparr>images := Some b, log := log s @ [NextTrainBatch b]\<rparr>, None)))"

text \<open>Lines 150 to 156, the same in training and in validation: the optional mask, the normalization and
  the forward pass, logged with the batch and the gradient mode.\<close>

definition forward_pass :: "run \<Rightarrow> ('net, 'sd, 'x) trainer stmt" where
  "forward_pass r =
     block
       [if_then (getattr_flag (run_gaussian_mask r)) (emit MaskMul),
        emit Normalize,
        with_images (\<lambda>b. with_net (\<lambda>n s. emit (Forward b (grad_enabled s)) s))]"

text \<open>Line 160: the step changes the network.\<close>

definition optimizer_step ::
  "('net, 'sd, 'x) framework \<Rightarrow> run \<Rightarrow> nat \<Rightarrow> ('net, 'sd, 'x) trainer stmt" where
  "optimizer_step fw r idx =
     with_optimizer (\<lambda>opt. with_images (\<lambda>b. with_net (\<lambda>n s.
       (s\<lparr>net := Some (optim_update fw (opt_owner opt = idx) opt
                        (getattr_flag (run_gaussian_mask r)) n b),
          log := log s @ [OptimizerStep]\<rparr>, None))))"

text \<open>Lines 148 to 169, the body of the loop over \<^verbatim>\<open>range(1)\<close>.\<close>

definition train_iteration ::
  "('net, 'sd, 'x) framework \<Rightarrow> run \<Rightarrow> nat \<Rightarrow> nat \<Rightarrow> ('net, 'sd, 'x) trainer stmt" where
  "train_iteration fw r idx i_iter =
     block
       [with_images (\<lambda>b. emit ToDevice),
        forward_pass r,
        emit CrossEntropy,
        with_optimizer (\<lambda>opt. emit ZeroGrad),
        emit Backward,
        optimizer_step fw r idx,
        with_optimizer (\<lambda>opt. skip),
        emit TrackLoss,
        emit TrackNumCorrect]"

text \<open>Lines 144 to 170, the training of one epoch.\<close>

definition train_phase ::
  "('net, 'sd, 'x) framework \<Rightarrow> run \<Rightarrow> nat \<Rightarrow> ('net, 'sd, 'x) trainer stmt" where
  "train_phase fw r idx =
     block [next_train_batch fw, for_each [0 ..< 1] (train_iteration fw r idx)]"

text \<open>Lines 172 to 175.\<close>

definition checkpoint_file ::
  "('net, 'sd, 'x) framework \<Rightarrow> ('net, 'sd, 'x) trainer \<Rightarrow> int \<Rightarrow> string" where
  "checkpoint_file fw s ep =
     path_join (path_join (save_root s) ''checkpoints'')
       (checkpoint_basename fw ep (best_acc s))"

text \<open>
  Line 177, \<^verbatim>\<open>epoch+1 % self.cfg.train.save_interval == 0\<close>: the operator \<^verbatim>\<open>%\<close> binds
  tighter than \<^verbatim>\<open>+\<close>, and \<^verbatim>\<open>+\<close> tighter than \<^verbatim>\<open>==\<close>. The remainder has the sign of
  the divisor in Python as in HOL, and a zero divisor raises.
\<close>

definition interval_due :: "int \<Rightarrow> int \<Rightarrow> error + bool" where
  "interval_due ep si =
     (if si = 0 then Inl ZeroDivisionError else Inr (ep + (1 mod si) = 0))"

text \<open>Lines 177 and 178.\<close>

definition interval_checkpoint ::
  "('net, 'sd, 'x) framework \<Rightarrow> config \<Rightarrow> string \<Rightarrow> int \<Rightarrow> ('net, 'sd, 'x) trainer stmt" where
  "interval_checkpoint fw cfg ckfile ep s =
     (case interval_due ep (tr_save_interval (cfg_train cfg)) of
        Inl e \<Rightarrow> (s, Some e)
      | Inr due \<Rightarrow>
          if due
          then with_net (\<lambda>n. with_optimizer (\<lambda>opt.
                 save_checkpoint fw IntervalPolicy ckfile n ep (opt_lr opt))) s
          else (s, None))"

text \<open>The block under \<^verbatim>\<open>with torch.no_grad()\<close>: the gradient mode is off inside and is
  restored on the way out, also when the block raises.\<close>

definition no_grad :: "('net, 'sd, 'x) trainer stmt \<Rightarrow> ('net, 'sd, 'x) trainer stmt" where
  "no_grad p s =
     (let prev = grad_enabled s
      in case p (s\<lparr>grad_enabled := False, log := log s @ [NoGradEnter]\<rparr>) of
           (s', r) \<Rightarrow> (s'\<lparr>grad_enabled := prev, log := log s' @ [NoGradExit]\<rparr>, r))"

text \<open>Lines 188 to 198, the body of the loop over the validation loader.\<close>

definition val_iteration :: "run \<Rightarrow> 'x list \<Rightarrow> ('net, 'sd, 'x) trainer stmt" where
  "val_iteration r b =
     block
       [(\<lambda>s. (s\<lparr>images := Some b, log := log s @ [NextValBatch b]\<rparr>, None)),
        with_images (\<lambda>b. emit ToDevice),
        forward_pass r,
        emit CrossEntropy,
        emit TrackLoss,
        emit TrackNumCorrect]"

text \<open>Lines 203 to 205, with the value of \<^verbatim>\<open>runner.val_accuracy\<close>.\<close>

definition improvement_checkpoint ::
  "('net, 'sd, 'x) framework \<Rightarrow> string \<Rightarrow> int \<Rightarrow> real \<Rightarrow> ('net, 'sd, 'x) trainer stmt" where
  "improvement_checkpoint fw ckfile ep val_accuracy s =
     (if val_accuracy > best_acc s
      then block
             [(\<lambda>s. (s\<lparr>best_acc := val_accuracy\<rparr>, None)),
              with_net (\<lambda>n. with_optimizer (\<lambda>opt.
                save_checkpoint fw Improvement ckfile n ep (opt_lr opt)))] s
      else (s, None))"

text \<open>Lines 183 to 205.\<close>

definition validation ::
  "('net, 'sd, 'x) framework \<Rightarrow> config \<Rightarrow> run \<Rightarrow> string \<Rightarrow> int
     \<Rightarrow> ('net, 'sd, 'x) trainer stmt" where
  "validation fw cfg r ckfile ep =
     if_then (ep + 1 = tr_epoch (cfg_train cfg))
       (block
          [with_net (\<lambda>n. emit NetEval),
           no_grad
             (block
                [with_val_loader (\<lambda>l. for_each (loader_batches fw l) (val_iteration r)),
                 emit (AddTbData ValStatus)]),
           with_net (\<lambda>n. with_val_loader (\<lambda>l.
             improvement_checkpoint fw ckfile ep
               (runner_val_accuracy fw n (getattr_flag (run_gaussian_mask r))
                  (loader_batches fw l))))])"

text \<open>Lines 208 and 209.\<close>

definition scheduler_step ::
  "('net, 'sd, 'x) framework \<Rightarrow> run \<Rightarrow> ('net, 'sd, 'x) trainer stmt" where
  "scheduler_step fw r =
     if_then (getattr_flag (run_reduce_lr r))
       (\<lambda>s. case scheduler s of
               None \<Rightarrow> (s, Some (UnboundLocalError ''scheduler''))
             | Some sc \<Rightarrow> (s\<lparr>log := log s @ [SchedulerStep]\<rparr>, plateau_step fw))"

text \<open>Lines 133 to 210, the body of the loop over the epochs. The name of the checkpoint
  file is formatted once, at line 175, from the best accuracy of that moment.\<close>

definition train_epoch ::
  "('net, 'sd, 'x) framework \<Rightarrow> config \<Rightarrow> run \<Rightarrow> nat \<Rightarrow> int
     \<Rightarrow> ('net, 'sd, 'x) trainer stmt" where
  "train_epoch fw cfg r idx ep =
     block
       [emit BeginEpoch,
        train_phase fw r idx,
        emit (AddTbData TrainStatus),
        (\<lambda>s. block
               [interval_checkpoint fw cfg (checkpoint_file fw s ep) ep,
                emit EmptyCache,
                validation fw cfg r (checkpoint_file fw s ep) ep] s),
        scheduler_step fw r,
        with_images (\<lambda>b. emit EndEpoch)]"

text \<open>\<^verbatim>\<open>range(a, b)\<close>, whose bounds are evaluated once.\<close>

definition py_range :: "int \<Rightarrow> int \<Rightarrow> int list" where
  "py_range a b = [a .. b - 1]"

text \<open>Lines 108 to 212, the body of the loop over the runs; \<open>idx\<close> is the position of the
  run in the sweep.\<close>

definition train_run ::
  "('net, 'sd, 'x) framework \<Rightarrow> config \<Rightarrow> nat \<times> run \<Rightarrow> ('net, 'sd, 'x) trainer stmt" where
  "train_run fw cfg ir =
     (case ir of (idx, r) \<Rightarrow>
        block
          [emit (PrintRun r),
           (\<lambda>s. (s\<lparr>lr := run_lr r\<rparr>, None)),
           (\<lambda>s. case load_model fw (cfg_reid_net cfg) (tr_pretrained (cfg_train cfg)) s of
                   (s', Inl e) \<Rightarrow> (s', Some e)
                 | (s', Inr n) \<Rightarrow> (s'\<lparr>net := Some n\<rparr>, None)),
           emit (BeginRun r),
           make_optimizer idx r,
           make_scheduler r,
           (\<lambda>s. for_each (py_range (start_epoch s) (tr_epoch (cfg_train cfg)))
                   (train_epoch fw cfg r idx) s),
           emit EndRun,
           (\<lambda>s. (s\<lparr>best_acc := 0\<rparr>, None))])"

definition train :: "('net, 'sd, 'x) framework \<Rightarrow> config \<Rightarrow> ('net, 'sd, 'x) trainer stmt" where
  "train fw cfg =
     block
       [(\<lambda>s. for_each (zip [0 ..< length (runs s)] (runs s)) (train_run fw cfg) s),
        (\<lambda>s. emit (RunnerSave (path_join (save_root s) ''train_result'')) s)]"

subsection \<open>Observing a loop\<close>

text \<open>The states in which the iterations of a loop start, and the states at the boundaries
  of its iterations (the first one, the one after each iteration, the last one being the
  state in which the loop ends or raises).\<close>

fun entry_states :: "'a list \<Rightarrow> ('a \<Rightarrow> 's stmt) \<Rightarrow> 's \<Rightarrow> 's list" where
  "entry_states [] body s = []"
| "entry_states (x # xs) body s =
     s # (case body x s of (s', None) \<Rightarrow> entry_states xs body s' | (s', Some e) \<Rightarrow> [])"

fun boundary_states :: "'a list \<Rightarrow> ('a \<Rightarrow> 's stmt) \<Rightarrow> 's \<Rightarrow> 's list" where
  "boundary_states [] body s = [s]"
| "boundary_states (x # xs) body s =
     s # (case body x s of (s', None) \<Rightarrow> boundary_states xs body s' | (s', Some e) \<Rightarrow> [s'])"

subsection \<open>A small instance\<close>

text \<open>A framework over numbers, to run the trainer on: a network is a counter of the
  updates it received, a sample is a number, and the validation accuracy grows with the
  counter.\<close>

definition toy_fw :: "(nat, nat, nat) framework" where
  "toy_fw =
     \<lparr>get_model = (\<lambda>name k. 0),
      module_to = (\<lambda>n d. n),
      nn_load_state_dict = (\<lambda>n sd. Inr sd),
      get_dataset =
        (\<lambda>reid name root_dir mode t. \<lparr>dset_samples = [10, 20, 30], dset_num_classes = 2\<rparr>),
      sampler_order = rev,
      optim_update = (\<lambda>owned opt mask n b. if owned then n + 1 else n),
      runner_val_accuracy = (\<lambda>n mask bs. real n / 4),
      plateau_step = Some (TypeError ''metrics''),
      checkpoint_basename = (\<lambda>ep a. ''epoch.pth''),
      os_makedirs = (\<lambda>fs d. None),
      torch_save_error = (\<lambda>fs f. None)\<rparr>"

definition toy_run :: "string \<Rightarrow> bool option \<Rightarrow> run" where
  "toy_run kind reduce =
     \<lparr>run_lr = 1 / 10, run_optim = kind, run_reduce_lr = reduce, run_gaussian_mask = None\<rparr>"

definition toy_cfg :: "int \<Rightarrow> int \<Rightarrow> run list \<Rightarrow> config" where
  "toy_cfg epochs interval rs =
     \<lparr>cfg_GPU = 0, cfg_reid_net = ''net'', cfg_weight_root = ''w'',
      cfg_dataset =
        \<lparr>ds_name = ''d'', ds_root = ''r'', ds_size = (4, 2), ds_mean = [0], ds_std = [1],
         ds_batch_size = 2, ds_workers = 0\<rparr>,
      cfg_train = \<lparr>tr_epoch = epochs, tr_save_interval = interval, tr_pretrained = []\<rparr>,
      cfg_params = rs\<rparr>"

definition toy_loader :: "nat loader" where
  "toy_loader =
     \<lparr>ld_dataset = \<lparr>dset_samples = [10, 20, 30], dset_num_classes = 2\<rparr>,
      ld_shuffle = False, ld_batch_size = 2, ld_num_workers = 0\<rparr>"

definition toy_trainer :: "run list \<Rightarrow> (nat, nat, nat) trainer" where
  "toy_trainer rs =
     \<lparr>save_root = ''w/net_d'', start_epoch = 0, lr = 0, best_acc = 0,
      train_loader = Some toy_loader, val_loader = Some toy_loader, num_classes = 2,
      device = Cpu, runs = rs, net = None, optimizer = None, scheduler = None,
      images = None, grad_enabled = True, files = Map.empty, log = []\<rparr>"

text \<open>The instance before \<^verbatim>\<open>load_data\<close>: no loader yet.\<close>

definition toy_blank :: "run list \<Rightarrow> (nat, nat, nat) trainer" where
  "toy_blank rs = (toy_trainer rs)\<lparr>train_loader := None, val_loader := None, num_classes := 0\<rparr>"

definition toy_opt :: optimizer where
  "toy_opt = \<lparr>opt_kind = SGD, opt_lr = 1 / 10, opt_owner = 0\<rparr>"

text \<open>The instance in the middle of a run: the network and the optimizer are bound.\<close>

definition toy_ready :: "(nat, nat, nat) trainer" where
  "toy_ready = (toy_trainer [])\<lparr>net := Some 5, optimizer := Some toy_opt\<rparr>"

subsection \<open>Notions used in the proofs\<close>

text \<open>The events of one pass of the validation loop over a batch \<open>b\<close>; the forward pass
  is logged with the gradient mode \<open>g\<close>.\<close>

definition val_batch_events :: "run \<Rightarrow> bool \<Rightarrow> 'x list \<Rightarrow> 'x event list" where
  "val_batch_events r g b =
     [NextValBatch b, ToDevice]
     @ (if getattr_flag (run_gaussian_mask r) then [MaskMul] else [])
     @ [Normalize, Forward b g, CrossEntropy, TrackLoss, TrackNumCorrect]"

text \<open>A relation between the state before a statement and the state after it, which holds
  however the statement ends.\<close>

definition stable :: "('s \<Rightarrow> 's \<Rightarrow> bool) \<Rightarrow> 's stmt \<Rightarrow> bool" where
  "stable R p = (\<forall>s. R s (fst (p s)))"

definition acc_le :: "('net, 'sd, 'x) trainer \<Rightarrow> ('net, 'sd, 'x) trainer \<Rightarrow> bool" where
  "acc_le s s' = (best_acc s \<le> best_acc s')"

text \<open>From one state to a later one: the training loader is the same, the log has only
  grown, and every batch that the training fetched in between is the first batch of that
  loader.\<close>

definition first_batch_rel ::
  "('net, 'sd, 'x) framework \<Rightarrow> ('net, 'sd, 'x) trainer \<Rightarrow> ('net, 'sd, 'x) trainer \<Rightarrow> bool" where
  "first_batch_rel fw s s' =
     (train_loader s' = train_loader s
      \<and> (\<exists>zs. log s' = log s @ zs
             \<and> (\<forall>b. NextTrainBatch b \<in> set zs \<longrightarrow>
                    (\<exists>l bs. train_loader s = Some l \<and> loader_batches fw l = b # bs))))"

text \<open>The batches that a log records as fetched by the training, in order.\<close>

fun fetched :: "'x event \<Rightarrow> 'x list list" where
  "fetched (NextTrainBatch b) = [b]"
| "fetched e = []"

definition train_batches :: "'x event list \<Rightarrow> 'x list list" where
  "train_batches evs = concat (map fetched evs)"

section \<open>Facts about statements\<close>

lemmas stmt_defs = seq_def skip_def emit_def if_then_def with_optimizer_def with_net_def
  with_images_def with_val_loader_def

lemma stableI: "(\<And>s. R s (fst (p s))) \<Longrightarrow> stable R p"
  by (simp add: stable_def)

lemma stableD: "stable R p \<Longrightarrow> R s (fst (p s))"
  by (simp add: stable_def)

lemma stable_skip: "reflp R \<Longrightarrow> stable R skip"
  by (simp add: stable_def skip_def reflpD)

lemma stable_seq:
  assumes "transp R" and "stable R p" and "stable R q"
  shows "stable R (seq p q)"
proof (rule stableI)
  fix s
  obtain s1 r where p: "p s = (s1, r)" by (cases "p s")
  have 1: "R s s1" using stableD [OF assms(2), of s] p by simp
  show "R s (fst (seq p q s))"
  proof (cases r)
    case None
    then have "fst (seq p q s) = fst (q s1)" using p by (simp add: seq_def)
    moreover have "R s1 (fst (q s1))" by (rule stableD [OF assms(3)])
    ultimately show ?thesis using 1 assms(1) by (metis transpD)
  next
    case (Some e)
    then show ?thesis using p 1 by (simp add: seq_def)
  qed
qed

lemma stable_block:
  assumes "reflp R" and "transp R" and "\<And>p. p \<in> set ps \<Longrightarrow> stable R p"
  shows "stable R (block ps)"
  using assms(3)
proof (induction ps)
  case Nil
  then show ?case by (simp add: stable_skip assms(1))
next
  case (Cons p ps)
  then show ?case by (simp add: stable_seq assms(2))
qed

lemma stable_for_each:
  assumes "reflp R" and "transp R" and "\<And>x. stable R (body x)"
  shows "stable R (for_each xs body)"
proof (rule stableI)
  fix s
  show "R s (fst (for_each xs body s))"
  proof (induction xs arbitrary: s)
    case Nil
    then show ?case using assms(1) by (simp add: reflpD)
  next
    case (Cons x xs)
    obtain s1 r where b: "body x s = (s1, r)" by (cases "body x s")
    have 1: "R s s1" using stableD [OF assms(3), of s x] b by simp
    show ?case
    proof (cases r)
      case None
      then have "fst (for_each (x # xs) body s) = fst (for_each xs body s1)"
        using b by simp
      then show ?thesis using 1 Cons.IH [of s1] assms(2) by (metis transpD)
    next
      case (Some e)
      then show ?thesis using b 1 by simp
    qed
  qed
qed

lemma stable_if_then: "reflp R \<Longrightarrow> stable R p \<Longrightarrow> stable R (if_then c p)"
  by (simp add: if_then_def stable_skip)

lemma stable_dep: "(\<And>a. stable R (p a)) \<Longrightarrow> stable R (\<lambda>s. p s s)"
  by (simp add: stable_def)

lemma stable_with_net: "reflp R \<Longrightarrow> (\<And>n. stable R (f n)) \<Longrightarrow> stable R (with_net f)"
  by (auto simp: stable_def with_net_def reflpD split: option.splits)

lemma stable_with_optimizer:
  "reflp R \<Longrightarrow> (\<And>n. stable R (f n)) \<Longrightarrow> stable R (with_optimizer f)"
  by (auto simp: stable_def with_optimizer_def reflpD split: option.splits)

lemma stable_with_images:
  "reflp R \<Longrightarrow> (\<And>n. stable R (f n)) \<Longrightarrow> stable R (with_images f)"
  by (auto simp: stable_def with_images_def reflpD split: option.splits)

lemma stable_with_val_loader:
  "reflp R \<Longrightarrow> (\<And>n. stable R (f n)) \<Longrightarrow> stable R (with_val_loader f)"
  by (auto simp: stable_def with_val_loader_def reflpD split: option.splits)

subsection \<open>The best accuracy never decreases\<close>

lemma acc_le_refl: "reflp acc_le"
  by (simp add: reflp_def acc_le_def)

lemma acc_le_trans: "transp acc_le"
  by (auto simp: transp_def acc_le_def)

lemmas acc_le_comb =
  stable_block [OF acc_le_refl acc_le_trans]
  stable_for_each [OF acc_le_refl acc_le_trans]
  stable_if_then [OF acc_le_refl]
  stable_with_net [OF acc_le_refl]
  stable_with_optimizer [OF acc_le_refl]
  stable_with_images [OF acc_le_refl]
  stable_with_val_loader [OF acc_le_refl]
  stable_skip [OF acc_le_refl]

lemma acc_le_emit: "stable acc_le (emit e)"
  by (simp add: stable_def acc_le_def emit_def)

lemma acc_le_save: "stable acc_le (save_checkpoint fw st f n ep l)"
  by (auto simp: stable_def acc_le_def save_checkpoint_def Let_def split: option.splits)

lemma acc_le_forward_pass: "stable acc_le (forward_pass r)"
proof -
  have "stable acc_le (with_images (\<lambda>b. with_net (\<lambda>n s. emit (Forward b (grad_enabled s)) s))
          :: ('a, 'b, 'c) trainer stmt)"
    by (intro acc_le_comb) (simp add: stable_def acc_le_def emit_def)
  then show ?thesis
    unfolding forward_pass_def by (intro acc_le_comb) (auto intro: acc_le_emit acc_le_comb)
qed

lemma acc_le_next_train_batch: "stable acc_le (next_train_batch fw)"
  by (auto simp: stable_def acc_le_def next_train_batch_def split: option.splits list.splits)

lemma acc_le_optimizer_step: "stable acc_le (optimizer_step fw r idx)"
  unfolding optimizer_step_def
  by (intro acc_le_comb) (simp add: stable_def acc_le_def)

lemma acc_le_train_iteration: "stable acc_le (train_iteration fw r idx i)"
  unfolding train_iteration_def
  by (intro acc_le_comb)
     (auto intro: acc_le_emit acc_le_comb acc_le_forward_pass acc_le_optimizer_step)

lemma acc_le_train_phase: "stable acc_le (train_phase fw r idx)"
  unfolding train_phase_def
  by (intro acc_le_comb)
     (auto intro: acc_le_comb acc_le_next_train_batch acc_le_train_iteration)

lemma acc_le_interval: "stable acc_le (interval_checkpoint fw cfg f ep)"
proof -
  have "stable acc_le (with_net (\<lambda>n. with_optimizer (\<lambda>opt.
          save_checkpoint fw IntervalPolicy f n ep (opt_lr opt)))
          :: ('a, 'b, 'c) trainer stmt)"
    by (intro acc_le_comb acc_le_save)
  then show ?thesis
    by (auto simp: stable_def interval_checkpoint_def acc_le_def split: sum.splits)
qed

lemma acc_le_no_grad: "stable acc_le p \<Longrightarrow> stable acc_le (no_grad p)"
proof (rule stableI)
  fix s :: "('a, 'b, 'c) trainer"
  assume a: "stable acc_le p"
  let ?s0 = "s\<lparr>grad_enabled := False, log := log s @ [NoGradEnter]\<rparr>"
  have "acc_le ?s0 (fst (p ?s0))" by (rule stableD [OF a])
  then show "acc_le s (fst (no_grad p s))"
    by (auto simp: no_grad_def acc_le_def Let_def split: prod.splits)
qed

lemma acc_le_improvement: "stable acc_le (improvement_checkpoint fw f ep va)"
proof (rule stableI)
  fix s :: "('a, 'b, 'c) trainer"
  have w: "stable acc_le (with_net (\<lambda>n. with_optimizer (\<lambda>opt.
          save_checkpoint fw Improvement f n ep (opt_lr opt))) :: ('a, 'b, 'c) trainer stmt)"
    by (intro acc_le_comb acc_le_save)
  show "acc_le s (fst (improvement_checkpoint fw f ep va s))"
  proof (cases "va > best_acc s")
    case True
    have "acc_le (s\<lparr>best_acc := va\<rparr>) (fst (with_net (\<lambda>n. with_optimizer (\<lambda>opt.
          save_checkpoint fw Improvement f n ep (opt_lr opt))) (s\<lparr>best_acc := va\<rparr>)))"
      by (rule stableD [OF w])
    with True show ?thesis
      by (auto simp: improvement_checkpoint_def seq_def skip_def acc_le_def
          split: prod.splits option.splits)
  next
    case False
    then show ?thesis by (simp add: improvement_checkpoint_def acc_le_def)
  qed
qed

lemma acc_le_bind_batch:
  "stable acc_le (\<lambda>s :: ('a, 'b, 'c) trainer.
      (s\<lparr>images := Some b, log := log s @ [NextValBatch b]\<rparr>, None))"
  by (simp add: stable_def acc_le_def)

lemma acc_le_val_iteration: "stable acc_le (val_iteration r b)"
  unfolding val_iteration_def
  by (intro acc_le_comb)
     (auto intro: acc_le_emit acc_le_comb acc_le_forward_pass acc_le_bind_batch)

lemma acc_le_val_pass:
  "stable acc_le (with_val_loader (\<lambda>l. for_each (loader_batches fw l) (val_iteration r)))"
  by (intro acc_le_comb acc_le_val_iteration)

lemma acc_le_val_improve:
  "stable acc_le (with_net (\<lambda>n. with_val_loader (\<lambda>l.
     improvement_checkpoint fw f ep (runner_val_accuracy fw n m (loader_batches fw l)))))"
  by (intro acc_le_comb acc_le_improvement)

lemma acc_le_val_block:
  "stable acc_le
     (block [with_val_loader (\<lambda>l. for_each (loader_batches fw l) (val_iteration r)),
             emit (AddTbData ValStatus)])"
  by (intro acc_le_comb) (auto intro: acc_le_val_pass acc_le_emit)

lemma acc_le_net_eval: "stable acc_le (with_net (\<lambda>n. emit NetEval))"
  by (intro acc_le_comb acc_le_emit)

lemma acc_le_validation: "stable acc_le (validation fw cfg r f ep)"
  unfolding validation_def
  by (intro acc_le_comb)
     (auto intro: acc_le_no_grad acc_le_val_block acc_le_val_improve acc_le_net_eval
        simp del: block.simps)

lemma acc_le_scheduler_step: "stable acc_le (scheduler_step fw r)"
  unfolding scheduler_step_def
  by (intro acc_le_comb) (auto simp: stable_def acc_le_def split: option.splits)

lemma acc_le_epoch_tail:
  "stable acc_le (block [interval_checkpoint fw cfg f ep, emit EmptyCache, validation fw cfg r f ep])"
  by (intro acc_le_comb) (auto intro: acc_le_interval acc_le_emit acc_le_validation)

lemma acc_le_train_epoch: "stable acc_le (train_epoch fw cfg r idx ep)"
proof -
  have d: "stable acc_le (\<lambda>s :: ('a, 'b, 'c) trainer. block
               [interval_checkpoint fw cfg (checkpoint_file fw s ep) ep,
                emit EmptyCache,
                validation fw cfg r (checkpoint_file fw s ep) ep] s)"
  proof (rule stableI)
    fix s :: "('a, 'b, 'c) trainer"
    show "acc_le s (fst (block
               [interval_checkpoint fw cfg (checkpoint_file fw s ep) ep,
                emit EmptyCache,
                validation fw cfg r (checkpoint_file fw s ep) ep] s))"
      by (rule stableD [OF acc_le_epoch_tail])
  qed
  have e: "stable acc_le (with_images (\<lambda>b. emit EndEpoch) :: ('a, 'b, 'c) trainer stmt)"
    by (intro acc_le_comb acc_le_emit)
  show ?thesis
    unfolding train_epoch_def
    by (intro acc_le_comb)
       (auto intro: acc_le_emit acc_le_train_phase acc_le_scheduler_step d e
          simp del: block.simps)
qed

section \<open>Evaluating the small instance\<close>

lemmas train_defs = train_def train_run_def train_epoch_def train_phase_def train_iteration_def
  forward_pass_def optimizer_step_def next_train_batch_def checkpoint_file_def
  interval_checkpoint_def interval_due_def no_grad_def val_iteration_def
  improvement_checkpoint_def validation_def scheduler_step_def make_optimizer_def
  make_scheduler_def load_model_def save_checkpoint_def py_range_def loader_batches_def
  isfile_def getattr_flag_def path_join_def torch_load_def load_state_dict_def
  dirname_def makedirs_def

lemmas toy_defs = toy_fw_def toy_cfg_def toy_run_def toy_trainer_def toy_loader_def
  toy_ready_def toy_opt_def

lemma chunks_toy: "chunks 2 [10, 20, 30::nat] = [[10, 20], [30]]"
  by (simp add: chunks.simps)

lemma toy_batches: "loader_batches toy_fw toy_loader = [[10, 20], [30]]"
  by (simp add: loader_batches_def toy_loader_def chunks_toy)

lemma upto_toy: "[0 .. 1::int] = [0, 1]" "[0 .. 0::int] = [0]"
  by (simp_all add: upto.simps)

text \<open>The whole run of the small instance with two epochs, a save interval of 2 and one
  SGD run.\<close>

lemma toy_sgd_run:
  "snd (train toy_fw (toy_cfg 2 2 [toy_run ''SGD'' None])
             (toy_trainer [toy_run ''SGD'' None])) = None
   \<and> log (fst (train toy_fw (toy_cfg 2 2 [toy_run ''SGD'' None])
                  (toy_trainer [toy_run ''SGD'' None]))) =
     [PrintRun (toy_run ''SGD'' None), BeginRun (toy_run ''SGD'' None),
      BeginEpoch, NextTrainBatch [10, 20], ToDevice, Normalize, Forward [10, 20] True,
      CrossEntropy, ZeroGrad, Backward, OptimizerStep, TrackLoss, TrackNumCorrect,
      AddTbData TrainStatus, EmptyCache, EndEpoch,
      BeginEpoch, NextTrainBatch [10, 20], ToDevice, Normalize, Forward [10, 20] True,
      CrossEntropy, ZeroGrad, Backward, OptimizerStep, TrackLoss, TrackNumCorrect,
      AddTbData TrainStatus, EmptyCache,
      NetEval, NoGradEnter,
      NextValBatch [10, 20], ToDevice, Normalize, Forward [10, 20] False, CrossEntropy,
      TrackLoss, TrackNumCorrect,
      NextValBatch [30], ToDevice, Normalize, Forward [30] False, CrossEntropy,
      TrackLoss, TrackNumCorrect,
      AddTbData ValStatus, NoGradExit,
      SaveCheckpoint Improvement ''w/net_d/checkpoints/epoch.pth'' 1,
      EndEpoch, EndRun, RunnerSave ''w/net_d/train_result'']"
  by (simp add: train_defs stmt_defs toy_defs chunks_toy upto_toy)

section \<open>The device\<close>

text \<open>
  Claim C10. \<^verbatim>\<open>setup_device\<close> builds the CUDA device from the global name \<^verbatim>\<open>cfg\<close> and
  not from its parameter \<^verbatim>\<open>device_id\<close>: for every \<^verbatim>\<open>device_id >= 0\<close> with CUDA
  available, the call raises a NameError when the module has no binding of \<^verbatim>\<open>cfg\<close>, and
  with a binding it returns the device numbered by \<^verbatim>\<open>cfg.GPU\<close> of that binding, whatever
  the argument is.
\<close>

theorem setup_device_reads_global_cfg:
  assumes "0 \<le> device_id" and "cuda_is_available"
  shows "(globs ''cfg'' = None \<longrightarrow>
            setup_device globs cuda_is_available device_id = Inl (NameError ''cfg''))
       \<and> (\<forall>c. globs ''cfg'' = Some c \<and> 0 \<le> cfg_GPU c \<longrightarrow>
            setup_device globs cuda_is_available device_id = Inr (Cuda (cfg_GPU c)))"
  using assms by (simp add: setup_device_def)

theorem setup_device_reads_global_cfg_witness:
  "setup_device Map.empty True 0 = Inl (NameError ''cfg'')
   \<and> setup_device [''cfg'' \<mapsto> (toy_cfg 1 1 [])\<lparr>cfg_GPU := 3\<rparr>] True 0 = Inr (Cuda 3)"
  using setup_device_reads_global_cfg [of 0 True Map.empty]
    setup_device_reads_global_cfg [of 0 True "[''cfg'' \<mapsto> (toy_cfg 1 1 [])\<lparr>cfg_GPU := 3\<rparr>]"]
  by (simp add: toy_cfg_def)

section \<open>Checkpoints\<close>



subsection \<open>Writing a checkpoint\<close>

lemma dirname_slash: "CHR ''/'' \<in> set p \<Longrightarrow> dirname p \<noteq> []"
proof -
  assume a: "CHR ''/'' \<in> set p"
  let ?head = "rev (dropWhile (\<lambda>c. c \<noteq> CHR ''/'') (rev p))"
  have "dropWhile (\<lambda>c. c \<noteq> CHR ''/'') (rev p) \<noteq> []"
    using a by (simp add: dropWhile_eq_Nil_conv)
  then have h: "?head \<noteq> []" by simp
  show ?thesis
  proof (cases "filter (\<lambda>c. c \<noteq> CHR ''/'') ?head = []")
    case True
    then show ?thesis using h by (simp add: dirname_def Let_def)
  next
    case False
    then have "\<exists>c \<in> set (rev ?head). \<not> c = CHR ''/''"
      by (auto simp: filter_empty_conv)
    then have "dropWhile (\<lambda>c. c = CHR ''/'') (rev ?head) \<noteq> []"
      by (simp only: dropWhile_eq_Nil_conv) blast
    then show ?thesis using False by (simp add: dirname_def Let_def)
  qed
qed

lemma dirname_no_slash: "CHR ''/'' \<notin> set p \<Longrightarrow> dirname p = []"
proof -
  assume "CHR ''/'' \<notin> set p"
  then have d: "dropWhile (\<lambda>c. c \<noteq> CHR ''/'') (rev p) = []"
    by (auto simp: dropWhile_eq_Nil_conv)
  show ?thesis unfolding dirname_def d by simp
qed

text \<open>The name that lines 172 to 175 build always has a directory part.\<close>

lemma checkpoint_file_dirname: "dirname (checkpoint_file fw s ep) \<noteq> []"
  by (rule dirname_slash) (auto simp: checkpoint_file_def path_join_def hd_conv_nth dest: hd_in_set)

lemma save_checkpoint_writes:
  assumes "writable fw (files s) f"
  shows "save_checkpoint fw st f n ep l s =
     (s\<lparr>files := (files s)(f \<mapsto> Pickled
            \<lparr>ck_net_dict = Some (BoundMethod n ''state_dict''), ck_acc = Some (best_acc s),
             ck_epoch = Some ep, ck_lr = Some l\<rparr>),
        log := log s @ [SaveCheckpoint st f ep]\<rparr>, None)"
  using assms by (simp add: save_checkpoint_def writable_def makedirs_def)

text \<open>A file name without a directory part: line 90 raises and nothing is written.\<close>

lemma save_checkpoint_no_directory:
  assumes "dirname f = []"
  shows "save_checkpoint fw st f n ep l s = (s, Some FileNotFoundError)"
  using assms by (simp add: save_checkpoint_def makedirs_def)

text \<open>What \<^verbatim>\<open>save_checkpoint\<close> writes cannot be read back by \<^verbatim>\<open>load_model\<close>: the entry
  \<^verbatim>\<open>net_dict\<close> of the file is a bound method, which \<^verbatim>\<open>load_state_dict\<close> rejects.\<close>

lemma save_then_load_raises:
  assumes "writable fw (files s) f"
  shows "load_model fw rn f (fst (save_checkpoint fw st f n ep l s)) =
     (fst (save_checkpoint fw st f n ep l s), Inl StateDictError)"
  unfolding save_checkpoint_writes [OF assms]
  by (simp add: load_model_def isfile_def torch_load_def load_state_dict_def)

lemma writable_toy: "writable toy_fw fs ''d/ck''"
  by (simp add: writable_def dirname_def toy_fw_def)

text \<open>
  Claim C1 asks that a checkpoint written by \<^verbatim>\<open>save_checkpoint\<close> and read by
  \<^verbatim>\<open>load_model\<close> restores the parameters of the model. On the small instance, with the
  file name \<^verbatim>\<open>d/ck\<close>, the write succeeds, the file written for the network \<open>5\<close> holds the
  bound method of that network and no parameters, and reading it raises instead of
  returning a model.
\<close>

theorem save_checkpoint_round_trip_fails:
  "snd (save_checkpoint toy_fw Improvement ''d/ck'' 5 0 (1 / 10) toy_ready) = None
   \<and> files (fst (save_checkpoint toy_fw Improvement ''d/ck'' 5 0 (1 / 10) toy_ready)) ''d/ck'' =
       Some (Pickled \<lparr>ck_net_dict = Some (BoundMethod 5 ''state_dict''), ck_acc = Some 0,
                      ck_epoch = Some 0, ck_lr = Some (1 / 10)\<rparr>)
   \<and> snd (load_model toy_fw ''net'' ''d/ck''
            (fst (save_checkpoint toy_fw Improvement ''d/ck'' 5 0 (1 / 10) toy_ready))) =
       Inl StateDictError"
  using save_then_load_raises
      [OF writable_toy, where s = toy_ready and rn = "''net''" and st = Improvement
        and n = 5 and ep = 0 and l = "1 / 10"]
    save_checkpoint_writes
      [OF writable_toy, where s = toy_ready and st = Improvement and n = 5 and ep = 0
        and l = "1 / 10"]
  by (simp add: toy_defs)

text \<open>With a file name that has no directory part nothing is written, and \<^verbatim>\<open>load_model\<close>
  then finds no file and returns the fresh model.\<close>

lemma save_checkpoint_bare_name:
  "save_checkpoint toy_fw Improvement ''ck'' 5 0 (1 / 10) toy_ready =
     (toy_ready, Some FileNotFoundError)
   \<and> load_model toy_fw ''net'' ''ck'' toy_ready = (toy_ready, Inr 0)"
  by (simp add: save_checkpoint_no_directory dirname_def load_model_def isfile_def toy_defs)

section \<open>The interval policy\<close>

lemma interval_due_cases:
  "1 \<le> si \<Longrightarrow> 0 \<le> ep \<Longrightarrow> interval_due ep si = Inr (ep = 0 \<and> si = 1)"
  by (cases "si = 1") (auto simp: interval_due_def)

text \<open>
  What line 177 does. The comparison is read as \<^verbatim>\<open>(epoch + (1 % save_interval)) == 0\<close>.
  For a save interval of at least 1 and an epoch index of at least 0, the checkpoint of
  the interval policy is written exactly when the epoch index is 0 and the save interval
  is 1; in every other epoch the statement changes nothing.
\<close>

lemma interval_checkpoint_first_epoch_only:
  assumes "1 \<le> tr_save_interval (cfg_train cfg)" and "0 \<le> ep"
    and "net s = Some n" and "optimizer s = Some opt"
    and "writable fw (files s) ckfile"
  shows "interval_checkpoint fw cfg ckfile ep s =
           (if ep = 0 \<and> tr_save_interval (cfg_train cfg) = 1
            then (s\<lparr>files := (files s)(ckfile \<mapsto> Pickled
                       \<lparr>ck_net_dict = Some (BoundMethod n ''state_dict''),
                        ck_acc = Some (best_acc s), ck_epoch = Some ep,
                        ck_lr = Some (opt_lr opt)\<rparr>),
                    log := log s @ [SaveCheckpoint IntervalPolicy ckfile ep]\<rparr>, None)
            else (s, None))"
  using assms
  by (simp add: interval_checkpoint_def interval_due_cases with_net_def with_optimizer_def
      save_checkpoint_writes)

text \<open>In an epoch other than the first, or with a save interval above 1, nothing is
  written, whatever the file name is.\<close>

lemma interval_checkpoint_skips:
  assumes "1 \<le> tr_save_interval (cfg_train cfg)" and "0 \<le> ep"
    and "ep \<noteq> 0 \<or> tr_save_interval (cfg_train cfg) \<noteq> 1"
  shows "interval_checkpoint fw cfg ckfile ep s = (s, None)"
  using assms by (auto simp: interval_checkpoint_def interval_due_cases)

lemma interval_checkpoint_toy:
  "interval_checkpoint toy_fw (toy_cfg 2 1 []) ''d/ck'' 0 toy_ready =
     (toy_ready\<lparr>files := [''d/ck'' \<mapsto> Pickled
                   \<lparr>ck_net_dict = Some (BoundMethod 5 ''state_dict''),
                    ck_acc = Some 0, ck_epoch = Some 0, ck_lr = Some (1 / 10)\<rparr>],
                log := [SaveCheckpoint IntervalPolicy ''d/ck'' 0]\<rparr>, None)
   \<and> interval_checkpoint toy_fw (toy_cfg 2 1 []) ''d/ck'' 1 toy_ready = (toy_ready, None)"
  using interval_checkpoint_first_epoch_only
      [where cfg = "toy_cfg 2 1 []" and ep = 0 and s = toy_ready and n = 5 and opt = toy_opt
        and fw = toy_fw and ckfile = "''d/ck''"]
    interval_checkpoint_first_epoch_only
      [where cfg = "toy_cfg 2 1 []" and ep = 1 and s = toy_ready and n = 5 and opt = toy_opt
        and fw = toy_fw and ckfile = "''d/ck''"]
  by (simp add: writable_toy) (simp add: toy_defs)

text \<open>
  Claim C2 says that, for every save interval of at least 1, the checkpoint of the
  interval policy is written in every epoch. Line 177 means to test
  \<^verbatim>\<open>(epoch + 1) % save_interval == 0\<close> and misses the parentheses. On the small instance
  with two epochs, a save interval of 2 and one SGD run, the second epoch (index 1) is the
  one in which the interval is due: there the test of line 177 is false and the statement
  writes nothing, and the log of the whole run holds no write of the interval policy.
\<close>

theorem interval_write_missing_when_due:
  "(1 + 1) mod tr_save_interval (cfg_train (toy_cfg 2 2 [toy_run ''SGD'' None])) = 0
   \<and> interval_due 1 (tr_save_interval (cfg_train (toy_cfg 2 2 [toy_run ''SGD'' None]))) = Inr False
   \<and> interval_checkpoint toy_fw (toy_cfg 2 2 [toy_run ''SGD'' None]) ''d/ck'' 1 toy_ready
       = (toy_ready, None)
   \<and> snd (train toy_fw (toy_cfg 2 2 [toy_run ''SGD'' None])
             (toy_trainer [toy_run ''SGD'' None])) = None
   \<and> log (fst (train toy_fw (toy_cfg 2 2 [toy_run ''SGD'' None])
                  (toy_trainer [toy_run ''SGD'' None]))) =
     [PrintRun (toy_run ''SGD'' None), BeginRun (toy_run ''SGD'' None),
      BeginEpoch, NextTrainBatch [10, 20], ToDevice, Normalize, Forward [10, 20] True,
      CrossEntropy, ZeroGrad, Backward, OptimizerStep, TrackLoss, TrackNumCorrect,
      AddTbData TrainStatus, EmptyCache, EndEpoch,
      BeginEpoch, NextTrainBatch [10, 20], ToDevice, Normalize, Forward [10, 20] True,
      CrossEntropy, ZeroGrad, Backward, OptimizerStep, TrackLoss, TrackNumCorrect,
      AddTbData TrainStatus, EmptyCache,
      NetEval, NoGradEnter,
      NextValBatch [10, 20], ToDevice, Normalize, Forward [10, 20] False, CrossEntropy,
      TrackLoss, TrackNumCorrect,
      NextValBatch [30], ToDevice, Normalize, Forward [30] False, CrossEntropy,
      TrackLoss, TrackNumCorrect,
      AddTbData ValStatus, NoGradExit,
      SaveCheckpoint Improvement ''w/net_d/checkpoints/epoch.pth'' 1,
      EndEpoch, EndRun, RunnerSave ''w/net_d/train_result'']"
  using toy_sgd_run
  by (simp add: interval_checkpoint_def interval_due_def toy_cfg_def)

section \<open>The training of one epoch\<close>

lemma train_phase_empty:
  assumes "train_loader s = Some l" and "loader_batches fw l = []"
  shows "train_phase fw r idx s = (s, Some StopIteration)"
  using assms by (simp add: train_phase_def next_train_batch_def stmt_defs)

lemma train_phase_unbound:
  assumes "train_loader s = Some l" and "loader_batches fw l = b # bs"
    and "net s = Some n" and "optimizer s = None"
  shows "train_phase fw r idx s =
     (s\<lparr>images := Some b,
        log := log s @ [NextTrainBatch b, ToDevice]
                 @ (if getattr_flag (run_gaussian_mask r) then [MaskMul] else [])
                 @ [Normalize, Forward b (grad_enabled s), CrossEntropy]\<rparr>,
      Some (UnboundLocalError ''optimizer''))"
  using assms
  by (simp add: train_phase_def next_train_batch_def train_iteration_def forward_pass_def
      optimizer_step_def stmt_defs)

text \<open>
  Claim C5. In an epoch whose training completes (the loader yields a batch, the network
  and the optimizer are bound), the training processes exactly one batch, the first one of
  the loader: the optional multiplication by the mask, the normalization, the forward
  pass, the loss, the backward pass, one step of the optimizer, and the two calls that feed
  the loss and the accuracy of that step to the recorder. No other batch of the loader
  appears.
\<close>

theorem train_phase_single_batch:
  assumes "train_loader s = Some l" and "loader_batches fw l = b # bs"
    and "net s = Some n" and "optimizer s = Some opt"
  shows "train_phase fw r idx s =
     (s\<lparr>images := Some b,
        net := Some (optim_update fw (opt_owner opt = idx) opt
                       (getattr_flag (run_gaussian_mask r)) n b),
        log := log s @ [NextTrainBatch b, ToDevice]
                 @ (if getattr_flag (run_gaussian_mask r) then [MaskMul] else [])
                 @ [Normalize, Forward b (grad_enabled s), CrossEntropy, ZeroGrad, Backward,
                    OptimizerStep, TrackLoss, TrackNumCorrect]\<rparr>, None)"
  using assms
  by (simp add: train_phase_def next_train_batch_def train_iteration_def forward_pass_def
      optimizer_step_def stmt_defs)

theorem train_phase_single_batch_witness:
  "train_phase toy_fw (toy_run ''SGD'' None) 0 toy_ready =
     (toy_ready\<lparr>images := Some [10, 20], net := Some 6,
        log := [NextTrainBatch [10, 20], ToDevice, Normalize, Forward [10, 20] True,
                CrossEntropy, ZeroGrad, Backward, OptimizerStep, TrackLoss,
                TrackNumCorrect]\<rparr>, None)"
  using train_phase_single_batch [of toy_ready toy_loader toy_fw "[10, 20]" "[[30]]" 5 toy_opt
      "toy_run ''SGD'' None" 0]
  by (simp add: toy_batches) (simp add: toy_defs getattr_flag_def)

section \<open>The validation of the final epoch\<close>

lemma result_case_id:
  "(case x of (s', None) \<Rightarrow> (s', None) | (s', Some e) \<Rightarrow> (s', Some e)) = x"
  by (auto split: prod.splits option.splits)

lemma val_iteration_ok:
  assumes "net s = Some n"
  shows "val_iteration r b s =
     (s\<lparr>images := Some b, log := log s @ val_batch_events r (grad_enabled s) b\<rparr>, None)"
  using assms by (simp add: val_iteration_def forward_pass_def stmt_defs val_batch_events_def)

lemma val_loop_ok:
  assumes "net s = Some n"
  shows "for_each bs (val_iteration r) s =
     (s\<lparr>images := (if bs = [] then images s else Some (last bs)),
        log := log s @ concat (map (val_batch_events r (grad_enabled s)) bs)\<rparr>, None)"
  using assms
proof (induction bs arbitrary: s)
  case Nil
  then show ?case by simp
next
  case (Cons b bs)
  let ?s1 = "s\<lparr>images := Some b, log := log s @ val_batch_events r (grad_enabled s) b\<rparr>"
  have 1: "val_iteration r b s = (?s1, None)" by (rule val_iteration_ok [OF Cons.prems])
  have 2: "net ?s1 = Some n" using Cons.prems by simp
  show ?case using Cons.IH [OF 2] 1 by simp
qed

text \<open>
  Claim C4. With the validation accuracy \<open>va\<close> computed in an epoch, lines 203 to 205 do
  this: when \<open>va\<close> is strictly above the best accuracy, the best accuracy becomes \<open>va\<close> and
  exactly one checkpoint is written (one file, one entry added to the log); otherwise
  nothing is written and the state, the best accuracy with it, is unchanged. The file name
  is one under which a checkpoint can be written, as the name built at lines 172 to 175
  is whenever its directory can be created.
\<close>

theorem improvement_checkpoint_writes_once:
  assumes "net s = Some n" and "optimizer s = Some opt" and "writable fw (files s) ckfile"
  shows "improvement_checkpoint fw ckfile ep va s =
     (if va > best_acc s
      then (s\<lparr>best_acc := va,
              files := (files s)(ckfile \<mapsto> Pickled
                 \<lparr>ck_net_dict = Some (BoundMethod n ''state_dict''), ck_acc = Some va,
                  ck_epoch = Some ep, ck_lr = Some (opt_lr opt)\<rparr>),
              log := log s @ [SaveCheckpoint Improvement ckfile ep]\<rparr>, None)
      else (s, None))"
  using assms
  by (simp add: improvement_checkpoint_def stmt_defs save_checkpoint_def writable_def
      makedirs_def)

theorem improvement_checkpoint_writes_once_witness:
  "improvement_checkpoint toy_fw ''d/ck'' 1 (1 / 2) toy_ready =
     (toy_ready\<lparr>best_acc := 1 / 2,
        files := [''d/ck'' \<mapsto> Pickled
           \<lparr>ck_net_dict = Some (BoundMethod 5 ''state_dict''), ck_acc = Some (1 / 2),
            ck_epoch = Some 1, ck_lr = Some (1 / 10)\<rparr>],
        log := [SaveCheckpoint Improvement ''d/ck'' 1]\<rparr>, None)
   \<and> improvement_checkpoint toy_fw ''d/ck'' 1 0 toy_ready = (toy_ready, None)"
  using improvement_checkpoint_writes_once
      [where s = toy_ready and n = 5 and opt = toy_opt and fw = toy_fw
        and ckfile = "''d/ck''" and ep = 1 and va = "1 / 2"]
    improvement_checkpoint_writes_once
      [where s = toy_ready and n = 5 and opt = toy_opt and fw = toy_fw
        and ckfile = "''d/ck''" and ep = 1 and va = 0]
  by (simp add: writable_toy) (simp add: toy_defs)

text \<open>The same fact, for the proofs that follow.\<close>

lemma improvement_checkpoint_eq:
  assumes "net s = Some n" and "optimizer s = Some opt" and "writable fw (files s) ckfile"
  shows "improvement_checkpoint fw ckfile ep va s =
     (if va > best_acc s
      then (s\<lparr>best_acc := va,
              files := (files s)(ckfile \<mapsto> Pickled
                 \<lparr>ck_net_dict = Some (BoundMethod n ''state_dict''), ck_acc = Some va,
                  ck_epoch = Some ep, ck_lr = Some (opt_lr opt)\<rparr>),
              log := log s @ [SaveCheckpoint Improvement ckfile ep]\<rparr>, None)
      else (s, None))"
  using assms
  by (simp add: improvement_checkpoint_def stmt_defs save_checkpoint_def writable_def
      makedirs_def)

lemma validation_final:
  assumes "ep + 1 = tr_epoch (cfg_train cfg)"
    and "net s = Some n" and "val_loader s = Some l" and "optimizer s = Some opt"
  shows "validation fw cfg r ckfile ep s =
     improvement_checkpoint fw ckfile ep
       (runner_val_accuracy fw n (getattr_flag (run_gaussian_mask r)) (loader_batches fw l))
       (s\<lparr>images := (if loader_batches fw l = [] then images s
                      else Some (last (loader_batches fw l))),
          log := log s @ [NetEval, NoGradEnter]
                   @ concat (map (val_batch_events r False) (loader_batches fw l))
                   @ [AddTbData ValStatus, NoGradExit]\<rparr>)"
proof -
  let ?s0 = "s\<lparr>log := log s @ [NetEval], grad_enabled := False,
               log := log s @ [NetEval] @ [NoGradEnter]\<rparr>"
  have n0: "net ?s0 = Some n" using assms(2) by simp
  show ?thesis
    using assms val_loop_ok [OF n0, of "loader_batches fw l" r]
    by (simp add: validation_def stmt_defs no_grad_def result_case_id)
qed

text \<open>When the file cannot be written, lines 203 to 205 still raise the best accuracy, and
  the write changes nothing else.\<close>

lemma improvement_checkpoint_unwritable:
  assumes "net s = Some n" and "optimizer s = Some opt" and "\<not> writable fw (files s) ckfile"
  shows "fst (improvement_checkpoint fw ckfile ep va s) =
           (if va > best_acc s then s\<lparr>best_acc := va\<rparr> else s)"
  using assms
  by (auto simp: improvement_checkpoint_def stmt_defs save_checkpoint_def writable_def
      makedirs_def Let_def split: option.splits)

text \<open>
  Claim C6. In an epoch with \<^verbatim>\<open>epoch + 1\<close> different from the configured number of
  epochs the validation does nothing. In the epoch with \<^verbatim>\<open>epoch + 1\<close> equal to it, the
  validation visits every batch of the validation loader in order, each forward pass
  with the gradient mode off, feeds the loss and the accuracy of each batch to the
  recorder and emits the aggregated metrics; the network is not changed and the gradient
  mode is restored. The checkpoint of lines 203 to 205 follows when the accuracy improved,
  and the validation ends without an exception when that file can be written.
\<close>

theorem validation_only_in_final_epoch:
  assumes "net s = Some n" and "val_loader s = Some l" and "optimizer s = Some opt"
  shows "(ep + 1 \<noteq> tr_epoch (cfg_train cfg) \<longrightarrow> validation fw cfg r ckfile ep s = (s, None))
       \<and> (ep + 1 = tr_epoch (cfg_train cfg) \<longrightarrow>
            (writable fw (files s) ckfile \<longrightarrow> snd (validation fw cfg r ckfile ep s) = None)
          \<and> log (fst (validation fw cfg r ckfile ep s)) =
              log s @ [NetEval, NoGradEnter]
                @ concat (map (val_batch_events r False) (loader_batches fw l))
                @ [AddTbData ValStatus, NoGradExit]
                @ (if runner_val_accuracy fw n (getattr_flag (run_gaussian_mask r))
                        (loader_batches fw l) > best_acc s
                      \<and> writable fw (files s) ckfile
                   then [SaveCheckpoint Improvement ckfile ep] else [])
          \<and> net (fst (validation fw cfg r ckfile ep s)) = net s
          \<and> grad_enabled (fst (validation fw cfg r ckfile ep s)) = grad_enabled s)"
proof (intro conjI impI)
  assume "ep + 1 \<noteq> tr_epoch (cfg_train cfg)"
  then show "validation fw cfg r ckfile ep s = (s, None)"
    by (simp add: validation_def if_then_def skip_def)
next
  assume f: "ep + 1 = tr_epoch (cfg_train cfg)"
  let ?va = "runner_val_accuracy fw n (getattr_flag (run_gaussian_mask r)) (loader_batches fw l)"
  let ?s1 = "s\<lparr>images := (if loader_batches fw l = [] then images s
                      else Some (last (loader_batches fw l))),
          log := log s @ [NetEval, NoGradEnter]
                   @ concat (map (val_batch_events r False) (loader_batches fw l))
                   @ [AddTbData ValStatus, NoGradExit]\<rparr>"
  have n1: "net ?s1 = Some n" and o1: "optimizer ?s1 = Some opt"
    and f1: "files ?s1 = files s" and b1: "best_acc ?s1 = best_acc s"
    using assms by simp_all
  have e: "validation fw cfg r ckfile ep s = improvement_checkpoint fw ckfile ep ?va ?s1"
    by (rule validation_final [OF f assms])
  have w: "writable fw (files s) ckfile \<Longrightarrow>
     improvement_checkpoint fw ckfile ep ?va ?s1 =
       (if ?va > best_acc ?s1
        then (?s1\<lparr>best_acc := ?va,
                files := (files ?s1)(ckfile \<mapsto> Pickled
                   \<lparr>ck_net_dict = Some (BoundMethod n ''state_dict''), ck_acc = Some ?va,
                    ck_epoch = Some ep, ck_lr = Some (opt_lr opt)\<rparr>),
                log := log ?s1 @ [SaveCheckpoint Improvement ckfile ep]\<rparr>, None)
        else (?s1, None))"
    by (rule improvement_checkpoint_eq [OF n1 o1]) (simp add: f1)
  have u: "\<not> writable fw (files s) ckfile \<Longrightarrow>
     fst (improvement_checkpoint fw ckfile ep ?va ?s1) =
       (if ?va > best_acc ?s1 then ?s1\<lparr>best_acc := ?va\<rparr> else ?s1)"
    by (rule improvement_checkpoint_unwritable [OF n1 o1]) (simp add: f1)
  {
    assume "writable fw (files s) ckfile"
    then show "snd (validation fw cfg r ckfile ep s) = None"
      unfolding e using w by simp
  }
  show "log (fst (validation fw cfg r ckfile ep s)) =
              log s @ [NetEval, NoGradEnter]
                @ concat (map (val_batch_events r False) (loader_batches fw l))
                @ [AddTbData ValStatus, NoGradExit]
                @ (if ?va > best_acc s \<and> writable fw (files s) ckfile
                   then [SaveCheckpoint Improvement ckfile ep] else [])"
  proof (cases "writable fw (files s) ckfile")
    case True
    then show ?thesis unfolding e w [OF True] by simp
  next
    case False
    then show ?thesis unfolding e u [OF False] by simp
  qed
  show "net (fst (validation fw cfg r ckfile ep s)) = net s"
  proof (cases "writable fw (files s) ckfile")
    case True
    then show ?thesis unfolding e w [OF True] using assms by simp
  next
    case False
    then show ?thesis unfolding e u [OF False] using assms by simp
  qed
  show "grad_enabled (fst (validation fw cfg r ckfile ep s)) = grad_enabled s"
  proof (cases "writable fw (files s) ckfile")
    case True
    then show ?thesis unfolding e w [OF True] by simp
  next
    case False
    then show ?thesis unfolding e u [OF False] by simp
  qed
qed

theorem validation_only_in_final_epoch_witness:
  "validation toy_fw (toy_cfg 2 1 []) (toy_run ''SGD'' None) ''d/ck'' 0 toy_ready
     = (toy_ready, None)
   \<and> snd (validation toy_fw (toy_cfg 2 1 []) (toy_run ''SGD'' None) ''d/ck'' 1 toy_ready) = None
   \<and> log (fst (validation toy_fw (toy_cfg 2 1 []) (toy_run ''SGD'' None) ''d/ck'' 1 toy_ready)) =
       [NetEval, NoGradEnter,
        NextValBatch [10, 20], ToDevice, Normalize, Forward [10, 20] False, CrossEntropy,
        TrackLoss, TrackNumCorrect,
        NextValBatch [30], ToDevice, Normalize, Forward [30] False, CrossEntropy,
        TrackLoss, TrackNumCorrect,
        AddTbData ValStatus, NoGradExit, SaveCheckpoint Improvement ''d/ck'' 1]"
  using validation_only_in_final_epoch
      [where s = toy_ready and n = 5 and l = toy_loader and opt = toy_opt and ep = 0
        and cfg = "toy_cfg 2 1 []" and fw = toy_fw and r = "toy_run ''SGD'' None"
        and ckfile = "''d/ck''"]
    validation_only_in_final_epoch
      [where s = toy_ready and n = 5 and l = toy_loader and opt = toy_opt and ep = 1
        and cfg = "toy_cfg 2 1 []" and fw = toy_fw and r = "toy_run ''SGD'' None"
        and ckfile = "''d/ck''"]
  by (simp add: toy_batches val_batch_events_def writable_toy)
     (simp add: toy_defs getattr_flag_def)

section \<open>The best accuracy over a sweep\<close>

text \<open>The two observations of a loop agree with the loop itself.\<close>

lemma boundary_states_last: "last (boundary_states xs body s) = fst (for_each xs body s)"
proof (induction xs arbitrary: s)
  case Nil
  then show ?case by simp
next
  case (Cons x xs)
  obtain s1 r where b: "body x s = (s1, r)" by (cases "body x s")
  have ne: "boundary_states xs body s1 \<noteq> []" by (cases xs) simp_all
  show ?case
  proof (cases r)
    case None
    then show ?thesis using b Cons.IH [of s1] ne by simp
  next
    case (Some e)
    then show ?thesis using b by simp
  qed
qed

lemma entry_states_boundary:
  "entry_states xs body s = take (length (entry_states xs body s)) (boundary_states xs body s)"
proof (induction xs arbitrary: s)
  case Nil
  then show ?case by simp
next
  case (Cons x xs)
  obtain s1 r where b: "body x s = (s1, r)" by (cases "body x s")
  show ?case
  proof (cases r)
    case None
    then show ?thesis using b Cons.IH [of s1] by simp
  next
    case (Some e)
    then show ?thesis using b by simp
  qed
qed

lemma train_run_resets:
  assumes "train_run fw cfg ir s = (s', None)"
  shows "best_acc s' = 0"
  using assms
  by (cases ir)
     (auto simp: train_run_def seq_def skip_def split: prod.splits option.splits)

lemma entry_states_const:
  assumes "f s = c" and "\<And>x t t'. body x t = (t', None) \<Longrightarrow> f t' = c"
  shows "map f (entry_states xs body s) = replicate (length (entry_states xs body s)) c"
  using assms(1)
proof (induction xs arbitrary: s)
  case Nil
  then show ?case by simp
next
  case (Cons x xs)
  obtain s1 r where b: "body x s = (s1, r)" by (cases "body x s")
  show ?case
  proof (cases r)
    case None
    then have "f s1 = c" using assms(2) b by blast
    then show ?thesis using Cons b None by simp
  next
    case (Some e)
    then show ?thesis using Cons.prems b by simp
  qed
qed

lemma boundary_states_lower:
  assumes "\<And>x t. f t \<le> f (fst (body x t))"
  shows "t \<in> set (boundary_states xs body s) \<Longrightarrow> (f s :: real) \<le> f t"
proof (induction xs arbitrary: s)
  case Nil
  then show ?case by simp
next
  case (Cons x xs)
  obtain s1 r where b: "body x s = (s1, r)" by (cases "body x s")
  have 1: "f s \<le> f s1" using assms [of s x] b by simp
  show ?case
  proof (cases r)
    case None
    then show ?thesis using Cons b 1 by (auto intro: order_trans)
  next
    case (Some e)
    then show ?thesis using Cons.prems b 1 by auto
  qed
qed

lemma boundary_states_sorted:
  assumes "\<And>x t. f t \<le> f (fst (body x t))"
  shows "sorted (map f (boundary_states xs body s) :: real list)"
proof (induction xs arbitrary: s)
  case Nil
  then show ?case by simp
next
  case (Cons x xs)
  obtain s1 r where b: "body x s = (s1, r)" by (cases "body x s")
  have 1: "f s \<le> f s1" using assms [of s x] b by simp
  have 2: "\<And>t. t \<in> set (boundary_states xs body s1) \<Longrightarrow> f s \<le> f t"
    using boundary_states_lower [of f body _ xs s1] assms 1 by (blast intro: order_trans)
  show ?case
  proof (cases r)
    case None
    then show ?thesis using Cons.IH [of s1] b 2 by auto
  next
    case (Some e)
    then show ?thesis using b 1 by simp
  qed
qed

lemma init_trainer_best_acc:
  assumes "init_trainer fw globs cuda cfg fs = Inr s0"
  shows "best_acc s0 = 0"
  using assms
  by (auto simp: init_trainer_def load_data_def DataLoader_def Let_def
      split: sum.splits prod.splits option.splits if_splits)

text \<open>
  Claim C3. After the trainer is constructed, every run of the sweep that is started
  finds the best accuracy equal to 0 at its start, whatever the pretrained path is: the
  constructor sets it to 0 and every run that ends resets it. Over the epochs of a run,
  from any state, the best accuracy at the successive boundaries of the epochs never
  decreases.
\<close>

theorem best_acc_zero_at_run_start_and_monotone:
  assumes "init_trainer fw globs cuda cfg fs = Inr s0"
  shows "map best_acc (entry_states (zip [0 ..< length (runs s0)] (runs s0)) (train_run fw cfg) s0)
           = replicate (length (entry_states (zip [0 ..< length (runs s0)] (runs s0))
                                  (train_run fw cfg) s0)) 0
       \<and> sorted (map best_acc
            (boundary_states (py_range (start_epoch s) (tr_epoch (cfg_train cfg)))
               (train_epoch fw cfg r idx) s))"
proof
  show "map best_acc (entry_states (zip [0 ..< length (runs s0)] (runs s0)) (train_run fw cfg) s0)
           = replicate (length (entry_states (zip [0 ..< length (runs s0)] (runs s0))
                                  (train_run fw cfg) s0)) 0"
    using init_trainer_best_acc [OF assms]
    by (rule entry_states_const [where f = best_acc and c = 0]) (rule train_run_resets)
  have "\<And>ep t. best_acc t \<le> best_acc (fst (train_epoch fw cfg r idx ep t))"
    using acc_le_train_epoch [of fw cfg r idx] by (simp add: stable_def acc_le_def)
  then show "sorted (map best_acc
            (boundary_states (py_range (start_epoch s) (tr_epoch (cfg_train cfg)))
               (train_epoch fw cfg r idx) s))"
    by (rule boundary_states_sorted)
qed

lemma init_toy:
  "init_trainer toy_fw Map.empty False (toy_cfg e i rs) Map.empty = Inr (toy_trainer rs)"
  by (simp add: init_trainer_def setup_device_def load_data_def DataLoader_def
      get_transforms_def toy_defs path_join_def make_save_root_def makedirs_def Let_def)

theorem best_acc_zero_at_run_start_and_monotone_witness:
  "init_trainer toy_fw Map.empty False
       (toy_cfg 2 1 [toy_run ''SGD'' None, toy_run ''Adam'' None]) Map.empty
     = Inr (toy_trainer [toy_run ''SGD'' None, toy_run ''Adam'' None])
   \<and> map best_acc
        (entry_states
           (zip [0 ..< length (runs (toy_trainer [toy_run ''SGD'' None, toy_run ''Adam'' None]))]
              (runs (toy_trainer [toy_run ''SGD'' None, toy_run ''Adam'' None])))
           (train_run toy_fw (toy_cfg 2 1 [toy_run ''SGD'' None, toy_run ''Adam'' None]))
           (toy_trainer [toy_run ''SGD'' None, toy_run ''Adam'' None]))
      = replicate (length
        (entry_states
           (zip [0 ..< length (runs (toy_trainer [toy_run ''SGD'' None, toy_run ''Adam'' None]))]
              (runs (toy_trainer [toy_run ''SGD'' None, toy_run ''Adam'' None])))
           (train_run toy_fw (toy_cfg 2 1 [toy_run ''SGD'' None, toy_run ''Adam'' None]))
           (toy_trainer [toy_run ''SGD'' None, toy_run ''Adam'' None]))) 0
   \<and> sorted (map best_acc
        (boundary_states
           (py_range (start_epoch toy_ready)
              (tr_epoch (cfg_train (toy_cfg 2 1 [toy_run ''SGD'' None, toy_run ''Adam'' None]))))
           (train_epoch toy_fw (toy_cfg 2 1 [toy_run ''SGD'' None, toy_run ''Adam'' None])
              (toy_run ''SGD'' None) 0)
           toy_ready))"
  using best_acc_zero_at_run_start_and_monotone
      [where s = toy_ready and r = "toy_run ''SGD'' None" and idx = 0,
       OF init_toy [of 2 1 "[toy_run ''SGD'' None, toy_run ''Adam'' None]"]]
    init_toy [of 2 1 "[toy_run ''SGD'' None, toy_run ''Adam'' None]"]
  by simp

text \<open>On the small instance the first run raises the best accuracy to one half in its
  final epoch, and the second run starts from 0 again.\<close>

lemma best_acc_toy_sweep:
  "map best_acc
     (entry_states (zip [0 ..< 2] [toy_run ''SGD'' None, toy_run ''Adam'' None])
        (train_run toy_fw (toy_cfg 2 1 [toy_run ''SGD'' None, toy_run ''Adam'' None]))
        (toy_trainer [toy_run ''SGD'' None, toy_run ''Adam'' None])) = [0, 0]
   \<and> map best_acc
        (boundary_states (py_range 0 2)
           (train_epoch toy_fw (toy_cfg 2 1 []) (toy_run ''SGD'' None) 0)
           ((toy_trainer [])\<lparr>net := Some 0, optimizer := Some toy_opt\<rparr>)) = [0, 0, 1 / 2]"
  by (simp add: train_defs stmt_defs toy_defs chunks_toy upto_toy upt_rec
      split: prod.splits option.splits)

section \<open>A run with an unknown optimizer\<close>

lemma load_model_frame:
  assumes "load_model fw rn p s = (s1, res)"
  shows "train_loader s1 = train_loader s \<and> val_loader s1 = val_loader s
       \<and> optimizer s1 = optimizer s \<and> log s1 = log s \<and> grad_enabled s1 = grad_enabled s
       \<and> images s1 = images s \<and> files s1 = files s \<and> net s1 = net s"
  using assms
  by (auto simp: load_model_def Let_def split: if_splits sum.splits option.splits)

lemma train_epoch_unbound:
  assumes "train_loader s = Some l" and "loader_batches fw l = b # bs"
    and "net s = Some n" and "optimizer s = None"
  shows "train_epoch fw cfg r idx ep s =
     (s\<lparr>images := Some b,
        log := log s @ [BeginEpoch, NextTrainBatch b, ToDevice]
                 @ (if getattr_flag (run_gaussian_mask r) then [MaskMul] else [])
                 @ [Normalize, Forward b (grad_enabled s), CrossEntropy]\<rparr>,
      Some (UnboundLocalError ''optimizer''))"
proof -
  let ?s0 = "s\<lparr>log := log s @ [BeginEpoch]\<rparr>"
  have "train_phase fw r idx ?s0 =
     (?s0\<lparr>images := Some b,
        log := log ?s0 @ [NextTrainBatch b, ToDevice]
                 @ (if getattr_flag (run_gaussian_mask r) then [MaskMul] else [])
                 @ [Normalize, Forward b (grad_enabled ?s0), CrossEntropy]\<rparr>,
      Some (UnboundLocalError ''optimizer''))"
    by (rule train_phase_unbound [where l = l and bs = bs and n = n]) (simp_all add: assms)
  then show ?thesis
    by (simp add: train_epoch_def seq_def emit_def)
qed

lemma py_range_nonempty: "a < b \<Longrightarrow> py_range a b = a # py_range (a + 1) b"
  by (simp add: py_range_def upto_rec1)

text \<open>
  Claim C8, as amended. For a run whose optimizer kind is neither \<^verbatim>\<open>SGD\<close> nor
  \<^verbatim>\<open>Adam\<close>, the construction of the optimizer raises nothing and leaves the local
  \<^verbatim>\<open>optimizer\<close> as it was. When it was unbound (no earlier run of the sweep bound it), the
  model is built, the first epoch is due and the training loader yields a batch: if the
  run does not ask for \<^verbatim>\<open>reduce_lr\<close>, the run enters the epoch loop and fails in the first
  epoch at \<^verbatim>\<open>optimizer.zero_grad()\<close>, after the forward pass and the loss; if the run asks
  for \<^verbatim>\<open>reduce_lr\<close>, it fails before the epoch loop, when the scheduler is built.
\<close>

theorem unknown_optimizer_run:
  assumes "run_optim r \<noteq> ''SGD''" and "run_optim r \<noteq> ''Adam''"
  shows "make_optimizer idx r s = (s, None)
       \<and> (optimizer s = None
            \<and> load_model fw (cfg_reid_net cfg) (tr_pretrained (cfg_train cfg))
                 (s\<lparr>lr := run_lr r\<rparr>) = (s1, Inr n)
            \<and> start_epoch s1 < tr_epoch (cfg_train cfg)
            \<and> train_loader s = Some l \<and> loader_batches fw l = b # bs \<longrightarrow>
          train_run fw cfg (idx, r) s =
            (if getattr_flag (run_reduce_lr r)
             then (s1\<lparr>net := Some n, log := log s @ [PrintRun r, BeginRun r]\<rparr>,
                   Some (UnboundLocalError ''optimizer''))
             else (s1\<lparr>net := Some n, images := Some b,
                      log := log s @ [PrintRun r, BeginRun r, BeginEpoch, NextTrainBatch b,
                                      ToDevice]
                        @ (if getattr_flag (run_gaussian_mask r) then [MaskMul] else [])
                        @ [Normalize, Forward b (grad_enabled s), CrossEntropy]\<rparr>,
                   Some (UnboundLocalError ''optimizer''))))"
proof (intro conjI impI)
  show "make_optimizer idx r s = (s, None)"
    using assms by (simp add: make_optimizer_def)
next
  assume a: "optimizer s = None
            \<and> load_model fw (cfg_reid_net cfg) (tr_pretrained (cfg_train cfg))
                 (s\<lparr>lr := run_lr r\<rparr>) = (s1, Inr n)
            \<and> start_epoch s1 < tr_epoch (cfg_train cfg)
            \<and> train_loader s = Some l \<and> loader_batches fw l = b # bs"
  let ?sp = "s\<lparr>log := log s @ [PrintRun r], lr := run_lr r\<rparr>"
  have lm: "load_model fw (cfg_reid_net cfg) (tr_pretrained (cfg_train cfg)) ?sp =
              (s1\<lparr>log := log s @ [PrintRun r]\<rparr>, Inr n)"
    using a by (auto simp: load_model_def Let_def split: if_splits sum.splits option.splits)
  have fr: "train_loader s1 = Some l" "optimizer s1 = None" "log s1 = log s"
    "grad_enabled s1 = grad_enabled s"
    using a load_model_frame [of fw "cfg_reid_net cfg" "tr_pretrained (cfg_train cfg)"
        "s\<lparr>lr := run_lr r\<rparr>" s1 "Inr n"] by simp_all
  let ?s2 = "s1\<lparr>log := log s @ [PrintRun r], net := Some n,
                 log := log s @ [PrintRun r] @ [BeginRun r]\<rparr>"
  have mo: "make_optimizer idx r ?s2 = (?s2, None)"
    using assms by (simp add: make_optimizer_def)
  show "train_run fw cfg (idx, r) s =
            (if getattr_flag (run_reduce_lr r)
             then (s1\<lparr>net := Some n, log := log s @ [PrintRun r, BeginRun r]\<rparr>,
                   Some (UnboundLocalError ''optimizer''))
             else (s1\<lparr>net := Some n, images := Some b,
                      log := log s @ [PrintRun r, BeginRun r, BeginEpoch, NextTrainBatch b,
                                      ToDevice]
                        @ (if getattr_flag (run_gaussian_mask r) then [MaskMul] else [])
                        @ [Normalize, Forward b (grad_enabled s), CrossEntropy]\<rparr>,
                   Some (UnboundLocalError ''optimizer'')))"
  proof (cases "getattr_flag (run_reduce_lr r)")
    case True
    then show ?thesis
      using lm mo fr
      by (simp add: train_run_def seq_def emit_def make_scheduler_def if_then_def
          with_optimizer_def)
  next
    case False
    have te: "train_epoch fw cfg r idx (start_epoch s1) ?s2 =
       (?s2\<lparr>images := Some b,
          log := log ?s2 @ [BeginEpoch, NextTrainBatch b, ToDevice]
                 @ (if getattr_flag (run_gaussian_mask r) then [MaskMul] else [])
                 @ [Normalize, Forward b (grad_enabled ?s2), CrossEntropy]\<rparr>,
        Some (UnboundLocalError ''optimizer''))"
      by (rule train_epoch_unbound [where l = l and bs = bs and n = n])
         (simp_all add: fr a)
    have rg: "py_range (start_epoch s1) (tr_epoch (cfg_train cfg)) =
                start_epoch s1 # py_range (start_epoch s1 + 1) (tr_epoch (cfg_train cfg))"
      using a by (simp add: py_range_nonempty)
    show ?thesis
      using False lm mo fr te rg
      by (simp add: train_run_def seq_def emit_def make_scheduler_def if_then_def skip_def)
  qed
qed

theorem unknown_optimizer_run_witness:
  "make_optimizer 0 (toy_run ''RMSprop'' None) (toy_trainer []) = (toy_trainer [], None)
   \<and> train_run toy_fw (toy_cfg 2 1 []) (0, toy_run ''RMSprop'' None) (toy_trainer []) =
       ((toy_trainer [])\<lparr>lr := 1 / 10, net := Some 0, images := Some [10, 20],
           log := [PrintRun (toy_run ''RMSprop'' None), BeginRun (toy_run ''RMSprop'' None),
                   BeginEpoch, NextTrainBatch [10, 20], ToDevice, Normalize,
                   Forward [10, 20] True, CrossEntropy]\<rparr>,
        Some (UnboundLocalError ''optimizer''))
   \<and> train_run toy_fw (toy_cfg 2 1 []) (0, toy_run ''RMSprop'' (Some True)) (toy_trainer []) =
       ((toy_trainer [])\<lparr>lr := 1 / 10, net := Some 0,
           log := [PrintRun (toy_run ''RMSprop'' (Some True)),
                   BeginRun (toy_run ''RMSprop'' (Some True))]\<rparr>,
        Some (UnboundLocalError ''optimizer''))"
  using unknown_optimizer_run [of "toy_run ''RMSprop'' None" 0 "toy_trainer []" toy_fw
      "toy_cfg 2 1 []" "(toy_trainer [])\<lparr>lr := 1 / 10\<rparr>" 0 toy_loader "[10, 20]" "[[30]]"]
    unknown_optimizer_run [of "toy_run ''RMSprop'' (Some True)" 0 "toy_trainer []" toy_fw
      "toy_cfg 2 1 []" "(toy_trainer [])\<lparr>lr := 1 / 10\<rparr>" 0 toy_loader "[10, 20]" "[[30]]"]
  by (simp add: toy_batches) (simp add: toy_defs load_model_def isfile_def getattr_flag_def)

text \<open>
  Claim C8 as it is written says that such a run proceeds into the epoch loop. On the
  small instance, a run with the kind \<^verbatim>\<open>RMSprop\<close> that asks for \<^verbatim>\<open>reduce_lr\<close> fails
  with two epochs still to run and without starting any: the log ends before the first
  \<open>BeginEpoch\<close>.
\<close>

theorem unknown_optimizer_enters_epoch_loop_counterexample:
  "run_optim (toy_run ''RMSprop'' (Some True)) \<noteq> ''SGD''
   \<and> run_optim (toy_run ''RMSprop'' (Some True)) \<noteq> ''Adam''
   \<and> py_range (start_epoch (toy_trainer [toy_run ''RMSprop'' (Some True)]))
        (tr_epoch (cfg_train (toy_cfg 2 1 [toy_run ''RMSprop'' (Some True)]))) = [0, 1]
   \<and> snd (train toy_fw (toy_cfg 2 1 [toy_run ''RMSprop'' (Some True)])
             (toy_trainer [toy_run ''RMSprop'' (Some True)])) =
       Some (UnboundLocalError ''optimizer'')
   \<and> log (fst (train toy_fw (toy_cfg 2 1 [toy_run ''RMSprop'' (Some True)])
                  (toy_trainer [toy_run ''RMSprop'' (Some True)]))) =
       [PrintRun (toy_run ''RMSprop'' (Some True)), BeginRun (toy_run ''RMSprop'' (Some True))]"
  by (simp add: train_defs stmt_defs toy_defs upto_toy)

text \<open>When an earlier run of the sweep built an optimizer, the local is still bound in a
  later run of unknown kind, which then runs to its end with the optimizer of the earlier
  run: on the small instance the sweep ends without an exception.\<close>

lemma stale_optimizer_example:
  "snd (train toy_fw (toy_cfg 1 1 [toy_run ''SGD'' None, toy_run ''RMSprop'' None])
          (toy_trainer [toy_run ''SGD'' None, toy_run ''RMSprop'' None])) = None
   \<and> optimizer (fst (train toy_fw (toy_cfg 1 1 [toy_run ''SGD'' None, toy_run ''RMSprop'' None])
          (toy_trainer [toy_run ''SGD'' None, toy_run ''RMSprop'' None]))) = Some toy_opt"
  by (simp add: train_defs stmt_defs toy_defs chunks_toy upto_toy upt_rec)

section \<open>The batches of the training loader\<close>

lemma fb_refl: "reflp (first_batch_rel fw)"
  by (simp add: reflp_def first_batch_rel_def)

lemma fbI:
  assumes "train_loader s' = train_loader s" and "log s' = log s @ zs"
    and "\<And>b. NextTrainBatch b \<in> set zs \<Longrightarrow>
           \<exists>l bs. train_loader s = Some l \<and> loader_batches fw l = b # bs"
  shows "first_batch_rel fw s s'"
  unfolding first_batch_rel_def using assms by blast

lemma fbE:
  assumes "first_batch_rel fw s s'"
  obtains zs where "train_loader s' = train_loader s" and "log s' = log s @ zs"
    and "\<And>b. NextTrainBatch b \<in> set zs \<Longrightarrow>
           \<exists>l bs. train_loader s = Some l \<and> loader_batches fw l = b # bs"
  using assms unfolding first_batch_rel_def by blast

lemma fb_trans: "transp (first_batch_rel fw)"
proof (rule transpI)
  fix a b c :: "('a, 'b, 'c) trainer"
  assume "first_batch_rel fw a b" and "first_batch_rel fw b c"
  then obtain z1 z2 where
    1: "train_loader b = train_loader a" "log b = log a @ z1"
       "\<And>x. NextTrainBatch x \<in> set z1 \<Longrightarrow>
           \<exists>l bs. train_loader a = Some l \<and> loader_batches fw l = x # bs"
    and 2: "train_loader c = train_loader b" "log c = log b @ z2"
       "\<And>x. NextTrainBatch x \<in> set z2 \<Longrightarrow>
           \<exists>l bs. train_loader b = Some l \<and> loader_batches fw l = x # bs"
    by (elim fbE) blast
  show "first_batch_rel fw a c"
  proof (rule fbI [where zs = "z1 @ z2"])
    show "train_loader c = train_loader a" using 1 2 by simp
    show "log c = log a @ z1 @ z2" using 1 2 by simp
    fix x
    assume "NextTrainBatch x \<in> set (z1 @ z2)"
    then show "\<exists>l bs. train_loader a = Some l \<and> loader_batches fw l = x # bs"
      using 1 2 by auto
  qed
qed

lemmas fb_comb =
  stable_block [OF fb_refl fb_trans]
  stable_for_each [OF fb_refl fb_trans]
  stable_if_then [OF fb_refl]
  stable_with_net [OF fb_refl]
  stable_with_optimizer [OF fb_refl]
  stable_with_images [OF fb_refl]
  stable_with_val_loader [OF fb_refl]
  stable_skip [OF fb_refl]

lemma fb_emit: "(\<And>b. e \<noteq> NextTrainBatch b) \<Longrightarrow> stable (first_batch_rel fw) (emit e)"
  by (auto simp: stable_def first_batch_rel_def emit_def)

lemma fb_save: "stable (first_batch_rel fw) (save_checkpoint fw st f n ep l)"
  by (auto simp: stable_def first_batch_rel_def save_checkpoint_def Let_def split: option.splits)

lemma fb_forward_pass: "stable (first_batch_rel fw) (forward_pass r)"
proof -
  have "stable (first_batch_rel fw)
          (with_images (\<lambda>b. with_net (\<lambda>n s. emit (Forward b (grad_enabled s)) s))
          :: ('a, 'b, 'c) trainer stmt)"
    by (intro fb_comb) (auto simp: stable_def first_batch_rel_def emit_def)
  then show ?thesis
    unfolding forward_pass_def by (intro fb_comb) (auto intro: fb_emit fb_comb)
qed

lemma fb_next_train_batch: "stable (first_batch_rel fw) (next_train_batch fw)"
  by (auto simp: stable_def first_batch_rel_def next_train_batch_def
      split: option.splits list.splits)

lemma fb_optimizer_step: "stable (first_batch_rel fw) (optimizer_step fw r idx)"
  unfolding optimizer_step_def
  by (intro fb_comb) (auto simp: stable_def first_batch_rel_def)

lemma fb_train_iteration: "stable (first_batch_rel fw) (train_iteration fw r idx i)"
  unfolding train_iteration_def
  by (intro fb_comb)
     (auto intro: fb_emit fb_comb fb_forward_pass fb_optimizer_step)

lemma fb_train_phase: "stable (first_batch_rel fw) (train_phase fw r idx)"
  unfolding train_phase_def
  by (intro fb_comb)
     (auto intro: fb_comb fb_next_train_batch fb_train_iteration)

lemma fb_interval: "stable (first_batch_rel fw) (interval_checkpoint fw cfg f ep)"
proof -
  have w: "stable (first_batch_rel fw) (with_net (\<lambda>n. with_optimizer (\<lambda>opt.
          save_checkpoint fw IntervalPolicy f n ep (opt_lr opt)))
          :: ('a, 'b, 'c) trainer stmt)"
    by (intro fb_comb fb_save)
  show ?thesis
  proof (rule stableI)
    fix s :: "('a, 'b, 'c) trainer"
    show "first_batch_rel fw s (fst (interval_checkpoint fw cfg f ep s))"
      using stableD [OF w, of s] reflpD [OF fb_refl, of fw s]
      by (auto simp: interval_checkpoint_def split: sum.splits)
  qed
qed

lemma fb_no_grad:
  assumes "stable (first_batch_rel fw) p"
  shows "stable (first_batch_rel fw) (no_grad p)"
proof (rule stableI)
  fix s :: "('a, 'b, 'c) trainer"
  let ?s0 = "s\<lparr>grad_enabled := False, log := log s @ [NoGradEnter]\<rparr>"
  obtain s1 res where p: "p ?s0 = (s1, res)" by (cases "p ?s0")
  have "first_batch_rel fw ?s0 (fst (p ?s0))" by (rule stableD [OF assms])
  then obtain zs where
    1: "train_loader s1 = train_loader ?s0" "log s1 = log ?s0 @ zs"
       "\<And>b. NextTrainBatch b \<in> set zs \<Longrightarrow>
           \<exists>l bs. train_loader ?s0 = Some l \<and> loader_batches fw l = b # bs"
    using p by (auto elim: fbE)
  have r: "fst (no_grad p s) = s1\<lparr>grad_enabled := grad_enabled s, log := log s1 @ [NoGradExit]\<rparr>"
    using p by (simp add: no_grad_def Let_def)
  show "first_batch_rel fw s (fst (no_grad p s))"
  proof (rule fbI [where zs = "NoGradEnter # zs @ [NoGradExit]"])
    show "train_loader (fst (no_grad p s)) = train_loader s" using r 1 by simp
    show "log (fst (no_grad p s)) = log s @ NoGradEnter # zs @ [NoGradExit]"
      using r 1 by simp
    fix b
    assume "NextTrainBatch b \<in> set (NoGradEnter # zs @ [NoGradExit])"
    then have "NextTrainBatch b \<in> set zs" by auto
    then show "\<exists>l bs. train_loader s = Some l \<and> loader_batches fw l = b # bs"
      using 1(3) by simp
  qed
qed

lemma fb_improvement: "stable (first_batch_rel fw) (improvement_checkpoint fw f ep va)"
proof (rule stableI)
  fix s :: "('a, 'b, 'c) trainer"
  have a: "stable (first_batch_rel fw)
             (\<lambda>s :: ('a, 'b, 'c) trainer. (s\<lparr>best_acc := va\<rparr>, None))"
    by (auto simp: stable_def first_batch_rel_def)
  have w: "stable (first_batch_rel fw) (with_net (\<lambda>n. with_optimizer (\<lambda>opt.
          save_checkpoint fw Improvement f n ep (opt_lr opt))) :: ('a, 'b, 'c) trainer stmt)"
    by (intro fb_comb fb_save)
  have blk: "stable (first_batch_rel fw)
     (block [(\<lambda>s :: ('a, 'b, 'c) trainer. (s\<lparr>best_acc := va\<rparr>, None)),
             with_net (\<lambda>n. with_optimizer (\<lambda>opt.
               save_checkpoint fw Improvement f n ep (opt_lr opt)))])"
    by (intro fb_comb) (auto intro: a w)
  show "first_batch_rel fw s (fst (improvement_checkpoint fw f ep va s))"
  proof (cases "va > best_acc s")
    case True
    then show ?thesis
      using stableD [OF blk, of s] by (simp add: improvement_checkpoint_def del: block.simps)
  next
    case False
    then show ?thesis
      using reflpD [OF fb_refl, of fw s] by (simp add: improvement_checkpoint_def)
  qed
qed

lemma fb_bind_batch:
  "stable (first_batch_rel fw) (\<lambda>s :: ('a, 'b, 'c) trainer.
      (s\<lparr>images := Some b, log := log s @ [NextValBatch b]\<rparr>, None))"
  by (auto simp: stable_def first_batch_rel_def)

lemma fb_val_iteration: "stable (first_batch_rel fw) (val_iteration r b)"
  unfolding val_iteration_def
  by (intro fb_comb)
     (auto intro: fb_emit fb_comb fb_forward_pass fb_bind_batch)

lemma fb_val_pass:
  "stable (first_batch_rel fw)
     (with_val_loader (\<lambda>l. for_each (loader_batches fw' l) (val_iteration r)))"
  by (intro fb_comb fb_val_iteration)

lemma fb_val_improve:
  "stable (first_batch_rel fw) (with_net (\<lambda>n. with_val_loader (\<lambda>l.
     improvement_checkpoint fw f ep (runner_val_accuracy fw' n m (loader_batches fw' l)))))"
  by (intro fb_comb fb_improvement)

lemma fb_val_block:
  "stable (first_batch_rel fw)
     (block [with_val_loader (\<lambda>l. for_each (loader_batches fw' l) (val_iteration r)),
             emit (AddTbData ValStatus)])"
  by (intro fb_comb) (auto intro: fb_val_pass fb_emit)

lemma fb_net_eval: "stable (first_batch_rel fw) (with_net (\<lambda>n. emit NetEval))"
  by (intro fb_comb fb_emit) simp

lemma fb_validation: "stable (first_batch_rel fw) (validation fw cfg r f ep)"
  unfolding validation_def
  by (intro fb_comb)
     (auto intro: fb_no_grad fb_val_block fb_val_improve fb_net_eval
        simp del: block.simps)

lemma fb_scheduler_step: "stable (first_batch_rel fw) (scheduler_step fw r)"
  unfolding scheduler_step_def
  by (intro fb_comb) (auto simp: stable_def first_batch_rel_def split: option.splits)

lemma fb_epoch_tail:
  "stable (first_batch_rel fw)
     (block [interval_checkpoint fw cfg f ep, emit EmptyCache, validation fw cfg r f ep])"
  by (intro fb_comb) (auto intro: fb_interval fb_emit fb_validation)

lemma fb_train_epoch: "stable (first_batch_rel fw) (train_epoch fw cfg r idx ep)"
proof -
  have d: "stable (first_batch_rel fw) (\<lambda>s :: ('a, 'b, 'c) trainer. block
               [interval_checkpoint fw cfg (checkpoint_file fw s ep) ep,
                emit EmptyCache,
                validation fw cfg r (checkpoint_file fw s ep) ep] s)"
  proof (rule stableI)
    fix s :: "('a, 'b, 'c) trainer"
    show "first_batch_rel fw s (fst (block
               [interval_checkpoint fw cfg (checkpoint_file fw s ep) ep,
                emit EmptyCache,
                validation fw cfg r (checkpoint_file fw s ep) ep] s))"
      by (rule stableD [OF fb_epoch_tail])
  qed
  have e: "stable (first_batch_rel fw)
             (with_images (\<lambda>b. emit EndEpoch) :: ('a, 'b, 'c) trainer stmt)"
    by (intro fb_comb fb_emit) simp
  show ?thesis
    unfolding train_epoch_def
    by (intro fb_comb)
       (auto intro: fb_emit fb_train_phase fb_scheduler_step d e
          simp del: block.simps)
qed

lemma fb_load_model:
  "stable (first_batch_rel fw)
     (\<lambda>s. case load_model fw rn p s of
             (s', Inl e) \<Rightarrow> (s', Some e)
           | (s', Inr n) \<Rightarrow> (s'\<lparr>net := Some n\<rparr>, None))"
proof (rule stableI)
  fix s :: "('a, 'b, 'c) trainer"
  obtain s1 res where l: "load_model fw rn p s = (s1, res)" by (cases "load_model fw rn p s")
  from load_model_frame [OF l] show "first_batch_rel fw s
     (fst (case load_model fw rn p s of
             (s', Inl e) \<Rightarrow> (s', Some e)
           | (s', Inr n) \<Rightarrow> (s'\<lparr>net := Some n\<rparr>, None)))"
    using l by (auto simp: first_batch_rel_def split: sum.splits)
qed

lemma fb_make_optimizer: "stable (first_batch_rel fw) (make_optimizer idx r)"
  by (auto simp: stable_def first_batch_rel_def make_optimizer_def)

lemma fb_make_scheduler: "stable (first_batch_rel fw) (make_scheduler r)"
  unfolding make_scheduler_def
  by (intro fb_comb) (auto simp: stable_def first_batch_rel_def)

lemma fb_epoch_loop:
  "stable (first_batch_rel fw)
     (\<lambda>s. for_each (py_range (start_epoch s) e) (train_epoch fw cfg r idx) s)"
proof (rule stableI)
  fix s :: "('a, 'b, 'c) trainer"
  have "stable (first_batch_rel fw)
          (for_each (py_range (start_epoch s) e) (train_epoch fw cfg r idx))"
    by (intro fb_comb fb_train_epoch)
  then show "first_batch_rel fw s
     (fst (for_each (py_range (start_epoch s) e) (train_epoch fw cfg r idx) s))"
    by (rule stableD)
qed

lemma fb_train_run: "stable (first_batch_rel fw) (train_run fw cfg ir)"
proof (cases ir)
  case (Pair idx r)
  have a: "stable (first_batch_rel fw)
             (\<lambda>s :: ('a, 'b, 'c) trainer. (s\<lparr>lr := run_lr r\<rparr>, None))"
    by (auto simp: stable_def first_batch_rel_def)
  have b: "stable (first_batch_rel fw)
             (\<lambda>s :: ('a, 'b, 'c) trainer. (s\<lparr>best_acc := 0\<rparr>, None))"
    by (auto simp: stable_def first_batch_rel_def)
  show ?thesis
    unfolding Pair train_run_def prod.case
    by (intro fb_comb)
       (auto intro: fb_emit fb_load_model fb_make_optimizer fb_make_scheduler fb_epoch_loop a b
          simp del: block.simps)
qed

lemma fb_train: "stable (first_batch_rel fw) (train fw cfg)"
proof -
  have a: "stable (first_batch_rel fw)
     (\<lambda>s :: ('a, 'b, 'c) trainer.
        for_each (zip [0 ..< length (runs s)] (runs s)) (train_run fw cfg) s)"
  proof (rule stableI)
    fix s :: "('a, 'b, 'c) trainer"
    have "stable (first_batch_rel fw)
            (for_each (zip [0 ..< length (runs s)] (runs s)) (train_run fw cfg))"
      by (intro fb_comb fb_train_run)
    then show "first_batch_rel fw s
       (fst (for_each (zip [0 ..< length (runs s)] (runs s)) (train_run fw cfg) s))"
      by (rule stableD)
  qed
  have b: "stable (first_batch_rel fw)
     (\<lambda>s :: ('a, 'b, 'c) trainer.
        emit (RunnerSave (path_join (save_root s) ''train_result'')) s)"
    by (auto simp: stable_def first_batch_rel_def emit_def)
  show ?thesis
    unfolding train_def
    by (intro fb_comb) (auto intro: a b simp del: block.simps)
qed

lemma chunks_head: "chunks n xs = b # bs \<Longrightarrow> b = take n xs"
  by (subst (asm) chunks.simps) (auto split: if_splits)

lemma chunks_nonempty: "0 < n \<Longrightarrow> xs \<noteq> [] \<Longrightarrow> chunks n xs = take n xs # chunks n (drop n xs)"
  by (subst chunks.simps) simp

lemma train_batches_set: "b \<in> set (train_batches evs) \<longleftrightarrow> NextTrainBatch b \<in> set evs"
proof (induction evs)
  case Nil
  then show ?case by (simp add: train_batches_def)
next
  case (Cons e evs)
  then show ?case by (cases e) (auto simp: train_batches_def)
qed

lemma emit_seq: "seq (emit e) q s = q (s\<lparr>log := log s @ [e]\<rparr>)"
  by (simp add: seq_def emit_def)

lemma seq_ok: "p s = (s1, None) \<Longrightarrow> seq p q s = q s1"
  by (simp add: seq_def)

lemma seq_assoc: "seq (seq p q) r s = seq p (seq q r) s"
  by (simp add: seq_def split: prod.splits option.splits)

text \<open>What follows the fetch of line 144 in an epoch only adds to the log.\<close>

lemma fb_after_fetch:
  "stable (first_batch_rel fw)
     (seq (block [for_each [0 ..< 1] (train_iteration fw r idx)])
        (block
           [emit (AddTbData TrainStatus),
            (\<lambda>s. block
                   [interval_checkpoint fw cfg (checkpoint_file fw s ep) ep,
                    emit EmptyCache,
                    validation fw cfg r (checkpoint_file fw s ep) ep] s),
            scheduler_step fw r,
            with_images (\<lambda>b. emit EndEpoch)]))"
proof -
  have d: "stable (first_batch_rel fw) (\<lambda>s :: ('a, 'b, 'c) trainer. block
               [interval_checkpoint fw cfg (checkpoint_file fw s ep) ep,
                emit EmptyCache,
                validation fw cfg r (checkpoint_file fw s ep) ep] s)"
  proof (rule stableI)
    fix s :: "('a, 'b, 'c) trainer"
    show "first_batch_rel fw s (fst (block
               [interval_checkpoint fw cfg (checkpoint_file fw s ep) ep,
                emit EmptyCache,
                validation fw cfg r (checkpoint_file fw s ep) ep] s))"
      by (rule stableD [OF fb_epoch_tail])
  qed
  have e: "stable (first_batch_rel fw)
             (with_images (\<lambda>b. emit EndEpoch) :: ('a, 'b, 'c) trainer stmt)"
    by (intro fb_comb fb_emit) simp
  have 1: "stable (first_batch_rel fw)
             (block [for_each [0 ..< 1] (train_iteration fw r idx)]
              :: ('a, 'b, 'c) trainer stmt)"
    by (intro fb_comb) (auto intro: fb_comb fb_train_iteration simp del: block.simps)
  have 2: "stable (first_batch_rel fw)
        (block
           [emit (AddTbData TrainStatus),
            (\<lambda>s :: ('a, 'b, 'c) trainer. block
                   [interval_checkpoint fw cfg (checkpoint_file fw s ep) ep,
                    emit EmptyCache,
                    validation fw cfg r (checkpoint_file fw s ep) ep] s),
            scheduler_step fw r,
            with_images (\<lambda>b. emit EndEpoch)])"
    by (intro fb_comb) (auto intro: fb_emit fb_scheduler_step d e simp del: block.simps)
  show ?thesis by (rule stable_seq [OF fb_trans 1 2])
qed

text \<open>Every epoch that finds a batch in the training loader begins by fetching the first
  one.\<close>

lemma train_epoch_begins:
  assumes "train_loader t = Some l" and "loader_batches fw l = b # bs"
  shows "take (length (log t) + 2) (log (fst (train_epoch fw cfg r idx ep t))) =
           log t @ [BeginEpoch, NextTrainBatch b]"
proof -
  let ?t0 = "t\<lparr>log := log t @ [BeginEpoch]\<rparr>"
  let ?t1 = "?t0\<lparr>images := Some b, log := log ?t0 @ [NextTrainBatch b]\<rparr>"
  let ?rest = "seq (block [for_each [0 ..< 1] (train_iteration fw r idx)])
        (block
           [emit (AddTbData TrainStatus),
            (\<lambda>s. block
                   [interval_checkpoint fw cfg (checkpoint_file fw s ep) ep,
                    emit EmptyCache,
                    validation fw cfg r (checkpoint_file fw s ep) ep] s),
            scheduler_step fw r,
            with_images (\<lambda>b. emit EndEpoch)])"
  have n: "next_train_batch fw ?t0 = (?t1, None)"
    using assms by (simp add: next_train_batch_def)
  have "train_epoch fw cfg r idx ep t =
          seq (seq (next_train_batch fw) (block [for_each [0 ..< 1] (train_iteration fw r idx)]))
            (block
               [emit (AddTbData TrainStatus),
                (\<lambda>s. block
                   [interval_checkpoint fw cfg (checkpoint_file fw s ep) ep,
                    emit EmptyCache,
                    validation fw cfg r (checkpoint_file fw s ep) ep] s),
                scheduler_step fw r,
                with_images (\<lambda>b. emit EndEpoch)]) ?t0"
    by (simp only: train_epoch_def train_phase_def block.simps emit_seq)
  also have "\<dots> = seq (next_train_batch fw) ?rest ?t0"
    by (rule seq_assoc)
  also have "\<dots> = ?rest ?t1"
    by (rule seq_ok) (rule n)
  finally have e: "train_epoch fw cfg r idx ep t = ?rest ?t1" .
  have "first_batch_rel fw ?t1 (fst (?rest ?t1))"
    by (rule stableD [OF fb_after_fetch])
  then obtain zs where "log (fst (?rest ?t1)) = log ?t1 @ zs"
    by (elim fbE)
  then have "log (fst (train_epoch fw cfg r idx ep t)) =
               (log t @ [BeginEpoch, NextTrainBatch b]) @ zs"
    unfolding e by simp
  then show ?thesis by simp
qed

lemma load_data_eq:
  assumes "0 < ds_batch_size (cfg_dataset cfg)"
  shows "load_data fw cfg root_dir rn s =
     (s\<lparr>train_loader :=
           Some \<lparr>ld_dataset =
                   get_dataset fw (cfg_reid_net cfg) (ds_name (cfg_dataset cfg)) root_dir ''val''
                     (get_transforms (ds_size (cfg_dataset cfg))),
                 ld_shuffle = False,
                 ld_batch_size = ds_batch_size (cfg_dataset cfg),
                 ld_num_workers = ds_workers (cfg_dataset cfg)\<rparr>,
         val_loader :=
           Some \<lparr>ld_dataset =
                   get_dataset fw (cfg_reid_net cfg) (ds_name (cfg_dataset cfg)) root_dir ''val''
                     (get_transforms (ds_size (cfg_dataset cfg))),
                 ld_shuffle = False,
                 ld_batch_size = ds_batch_size (cfg_dataset cfg),
                 ld_num_workers = ds_workers (cfg_dataset cfg)\<rparr>,
         num_classes :=
           dset_num_classes
             (get_dataset fw (cfg_reid_net cfg) (ds_name (cfg_dataset cfg)) root_dir ''val''
                (get_transforms (ds_size (cfg_dataset cfg))))\<rparr>, None)"
  using assms by (simp add: load_data_def DataLoader_def Let_def)

text \<open>A batch size of 0 is refused by the first loader, and nothing is built.\<close>

lemma load_data_zero_batch:
  assumes "ds_batch_size (cfg_dataset cfg) = 0"
  shows "load_data fw cfg root_dir rn s = (s, Some (ValueError ''batch_size''))"
  using assms by (simp add: load_data_def DataLoader_def Let_def)

text \<open>
  Claim C9. With a positive batch size, \<^verbatim>\<open>load_data\<close> builds the training loader and the
  validation loader alike: over the dataset that \<^verbatim>\<open>get_dataset\<close> returns for the mode
  \<^verbatim>\<open>val\<close> and the same root, without shuffling, with the configured batch size and number
  of workers. From any state that holds this training loader, the training keeps it;
  every batch that the whole sweep fetches for training is the first \<^verbatim>\<open>batch_size\<close>
  samples of that validation split; and, when the split is not empty, every epoch begins
  by fetching exactly that batch.
\<close>

theorem load_data_same_split_first_batch:
  fixes fw :: "('net, 'sd, 'x) framework" and cfg :: config and root_dir :: string
  assumes "0 < ds_batch_size (cfg_dataset cfg)"
  defines "D \<equiv> get_dataset fw (cfg_reid_net cfg) (ds_name (cfg_dataset cfg)) root_dir ''val''
                 (get_transforms (ds_size (cfg_dataset cfg)))"
  defines "L \<equiv> \<lparr>ld_dataset = D, ld_shuffle = False,
                 ld_batch_size = ds_batch_size (cfg_dataset cfg),
                 ld_num_workers = ds_workers (cfg_dataset cfg)\<rparr>"
  defines "B \<equiv> take (ds_batch_size (cfg_dataset cfg)) (dset_samples D)"
  shows "load_data fw cfg root_dir rn s =
           (s\<lparr>train_loader := Some L, val_loader := Some L,
               num_classes := dset_num_classes D\<rparr>, None)
       \<and> (train_loader t = Some L \<longrightarrow>
            train_loader (fst (train fw cfg t)) = Some L
          \<and> set (train_batches (drop (length (log t)) (log (fst (train fw cfg t))))) \<subseteq> {B}
          \<and> (dset_samples D \<noteq> [] \<longrightarrow>
               take (length (log t) + 2) (log (fst (train_epoch fw cfg r idx ep t))) =
                 log t @ [BeginEpoch, NextTrainBatch B]))"
proof (intro conjI impI)
  show "load_data fw cfg root_dir rn s =
           (s\<lparr>train_loader := Some L, val_loader := Some L,
               num_classes := dset_num_classes D\<rparr>, None)"
    unfolding L_def D_def by (rule load_data_eq [OF assms(1)])
next
  assume tl: "train_loader t = Some L"
  have lb: "\<And>b bs. loader_batches fw L = b # bs \<Longrightarrow> b = B"
    unfolding B_def by (auto simp: loader_batches_def L_def dest: chunks_head)
  have "first_batch_rel fw t (fst (train fw cfg t))"
    by (rule stableD [OF fb_train])
  then obtain zs where
    1: "train_loader (fst (train fw cfg t)) = train_loader t"
       "log (fst (train fw cfg t)) = log t @ zs"
       "\<And>b. NextTrainBatch b \<in> set zs \<Longrightarrow>
           \<exists>l bs. train_loader t = Some l \<and> loader_batches fw l = b # bs"
    by (elim fbE) blast
  show "train_loader (fst (train fw cfg t)) = Some L" using 1 tl by simp
  show "set (train_batches (drop (length (log t)) (log (fst (train fw cfg t))))) \<subseteq> {B}"
  proof
    fix b
    assume "b \<in> set (train_batches (drop (length (log t)) (log (fst (train fw cfg t)))))"
    then have "NextTrainBatch b \<in> set zs" using 1(2) by (simp add: train_batches_set)
    then obtain l bs where "train_loader t = Some l" and "loader_batches fw l = b # bs"
      using 1(3) by blast
    then have "b = B" using tl lb by simp
    then show "b \<in> {B}" by simp
  qed
  assume ne: "dset_samples D \<noteq> []"
  have "loader_batches fw L = B # chunks (ds_batch_size (cfg_dataset cfg))
                                   (drop (ds_batch_size (cfg_dataset cfg)) (dset_samples D))"
    unfolding B_def using assms(1) ne by (simp add: loader_batches_def L_def chunks_nonempty)
  then show "take (length (log t) + 2) (log (fst (train_epoch fw cfg r idx ep t))) =
                 log t @ [BeginEpoch, NextTrainBatch B]"
    by (rule train_epoch_begins [OF tl])
qed

lemma load_data_toy:
  "load_data toy_fw (toy_cfg e i rs) ''r'' ''net'' (toy_blank rs) = (toy_trainer rs, None)"
  by (simp add: load_data_def DataLoader_def get_transforms_def toy_defs toy_blank_def Let_def)

theorem load_data_same_split_first_batch_witness:
  "load_data toy_fw (toy_cfg 2 2 [toy_run ''SGD'' None]) ''r'' ''net''
       (toy_blank [toy_run ''SGD'' None]) = (toy_trainer [toy_run ''SGD'' None], None)
   \<and> train_loader (toy_blank [toy_run ''SGD'' None] :: (nat, nat, nat) trainer) = None
   \<and> train_loader (toy_trainer [toy_run ''SGD'' None] :: (nat, nat, nat) trainer)
       = Some toy_loader
   \<and> val_loader (toy_trainer [toy_run ''SGD'' None] :: (nat, nat, nat) trainer)
       = Some toy_loader
   \<and> train_loader (fst (train toy_fw (toy_cfg 2 2 [toy_run ''SGD'' None])
                          (toy_trainer [toy_run ''SGD'' None]))) = Some toy_loader
   \<and> train_batches (log (fst (train toy_fw (toy_cfg 2 2 [toy_run ''SGD'' None])
                                (toy_trainer [toy_run ''SGD'' None])))) = [[10, 20], [10, 20]]
   \<and> take 2 (log (fst (train_epoch toy_fw (toy_cfg 2 2 [toy_run ''SGD'' None])
                         (toy_run ''SGD'' None) 0 0 (toy_trainer [toy_run ''SGD'' None]))))
       = [BeginEpoch, NextTrainBatch [10, 20]]"
proof -
  have p: "0 < ds_batch_size (cfg_dataset (toy_cfg 2 2 [toy_run ''SGD'' None]))"
    by (simp add: toy_cfg_def)
  note t = load_data_same_split_first_batch
      [OF p, where fw = toy_fw and root_dir = "''r''" and rn = "''net''"
        and s = "toy_blank [toy_run ''SGD'' None]" and t = "toy_trainer [toy_run ''SGD'' None]"
        and r = "toy_run ''SGD'' None" and idx = 0 and ep = 0]
  have l: "\<lparr>ld_dataset =
             get_dataset toy_fw (cfg_reid_net (toy_cfg 2 2 [toy_run ''SGD'' None]))
               (ds_name (cfg_dataset (toy_cfg 2 2 [toy_run ''SGD'' None]))) ''r'' ''val''
               (get_transforms (ds_size (cfg_dataset (toy_cfg 2 2 [toy_run ''SGD'' None])))),
            ld_shuffle = False,
            ld_batch_size = ds_batch_size (cfg_dataset (toy_cfg 2 2 [toy_run ''SGD'' None])),
            ld_num_workers = ds_workers (cfg_dataset (toy_cfg 2 2 [toy_run ''SGD'' None]))\<rparr>
          = toy_loader"
    by (simp add: toy_cfg_def toy_fw_def toy_loader_def)
  have d: "dset_samples
             (get_dataset toy_fw (cfg_reid_net (toy_cfg 2 2 [toy_run ''SGD'' None]))
               (ds_name (cfg_dataset (toy_cfg 2 2 [toy_run ''SGD'' None]))) ''r'' ''val''
               (get_transforms (ds_size (cfg_dataset (toy_cfg 2 2 [toy_run ''SGD'' None])))))
          = [10, 20, 30]"
    by (simp add: toy_fw_def)
  have tt: "train_loader (toy_trainer [toy_run ''SGD'' None] :: (nat, nat, nat) trainer)
              = Some toy_loader"
    and tv: "val_loader (toy_trainer [toy_run ''SGD'' None] :: (nat, nat, nat) trainer)
              = Some toy_loader"
    and tb: "train_loader (toy_blank [toy_run ''SGD'' None] :: (nat, nat, nat) trainer) = None"
    and tg: "log (toy_trainer [toy_run ''SGD'' None] :: (nat, nat, nat) trainer) = []"
    by (simp_all add: toy_trainer_def toy_blank_def)
  have bs: "ds_batch_size (cfg_dataset (toy_cfg 2 2 [toy_run ''SGD'' None])) = 2"
    by (simp add: toy_cfg_def)
  have tk: "take 2 [10, 20, 30 :: nat] = [10, 20]" by simp
  note t2 = t [unfolded l, unfolded d bs tk, THEN conjunct2, THEN mp, OF tt]
  have 1: "train_loader (fst (train toy_fw (toy_cfg 2 2 [toy_run ''SGD'' None])
                          (toy_trainer [toy_run ''SGD'' None]))) = Some toy_loader"
    by (rule t2 [THEN conjunct1])
  have "take (length (log (toy_trainer [toy_run ''SGD'' None] :: (nat, nat, nat) trainer)) + 2)
          (log (fst (train_epoch toy_fw (toy_cfg 2 2 [toy_run ''SGD'' None])
                         (toy_run ''SGD'' None) 0 0 (toy_trainer [toy_run ''SGD'' None]))))
       = log (toy_trainer [toy_run ''SGD'' None] :: (nat, nat, nat) trainer)
           @ [BeginEpoch, NextTrainBatch [10, 20]]"
    by (rule t2 [THEN conjunct2, THEN conjunct2, THEN mp]) simp
  then have 2: "take 2 (log (fst (train_epoch toy_fw (toy_cfg 2 2 [toy_run ''SGD'' None])
                         (toy_run ''SGD'' None) 0 0 (toy_trainer [toy_run ''SGD'' None]))))
       = [BeginEpoch, NextTrainBatch [10, 20]]"
    by (simp only: tg list.size add_0 append_Nil)
  have 3: "train_batches (log (fst (train toy_fw (toy_cfg 2 2 [toy_run ''SGD'' None])
                                (toy_trainer [toy_run ''SGD'' None])))) = [[10, 20], [10, 20]]"
    using toy_sgd_run by (simp add: train_batches_def)
  show ?thesis
    using load_data_toy [of 2 2 "[toy_run ''SGD'' None]"] tt tv tb 1 2 3 by simp
qed

end
